theory Spec2Isabelle
  imports Complex_Main "HOL-Library.Multiset"
begin

section \<open>Data model (lib/types.ts)\<close>

text \<open>
  The interfaces of \<^verbatim>\<open>types.ts\<close> become records. Record fields are global names in
  HOL, so every field carries a short prefix of its interface (\<open>tx_\<close>, \<open>b_\<close>, \<open>u_\<close>,
  \<open>p_\<close>); after the prefix the name is the one of the source. A \<^verbatim>\<open>number\<close> that is
  stored (an amount, a limit) is a finite value and is modelled by a \<open>real\<close>; the budget
  read path adds such amounts exactly. The numbers that the analytics code computes are
  the subject of the next section. An optional field (\<^verbatim>\<open>f?: T\<close>) is an \<open>option\<close>,
  \<open>None\<close> standing for \<^verbatim>\<open>undefined\<close>.
\<close>

datatype Theme = dark | light

datatype Period = monthly | weekly

record Preferences =
  pref_currency :: string
  pref_theme :: Theme

record User =
  u_id :: string
  u_email :: string
  u_name :: string
  u_preferences :: Preferences
  u_createdAt :: string

record AiMetadata =
  confidence :: real
  originalPrompt :: string
  modelUsed :: string

record Transaction =
  tx_id :: string
  tx_userId :: string
  tx_amount :: real
  tx_currency :: string
  tx_date :: string
  tx_category :: string
  tx_merchant :: string
  tx_description :: string
  tx_tags :: "string list"
  tx_isRecurring :: bool
  tx_aiMetadata :: "AiMetadata option"

record Budget =
  b_id :: string
  b_userId :: string
  b_category :: string
  b_limitAmount :: real
  b_period :: Period
  b_spent :: real

text \<open>\<^verbatim>\<open>Partial<Transaction>\<close>: every field of a transaction, each one optional.\<close>

record Payload =
  p_id :: "string option"
  p_userId :: "string option"
  p_amount :: "real option"
  p_currency :: "string option"
  p_date :: "string option"
  p_category :: "string option"
  p_merchant :: "string option"
  p_description :: "string option"
  p_tags :: "string list option"
  p_isRecurring :: "bool option"
  p_aiMetadata :: "AiMetadata option"

text \<open>The object literal \<^verbatim>\<open>{}\<close> read as a \<^verbatim>\<open>Partial<Transaction>\<close>: no field present.\<close>

definition emptyPayload :: Payload where
  "emptyPayload =
     \<lparr>p_id = None, p_userId = None, p_amount = None, p_currency = None, p_date = None,
      p_category = None, p_merchant = None, p_description = None, p_tags = None,
      p_isRecurring = None, p_aiMetadata = None\<rparr>"

section \<open>Numbers that the code computes\<close>

text \<open>
  What the analytics code and the comparators of \<^verbatim>\<open>sort\<close> compute (sums, differences,
  quotients) is a JavaScript number, which besides
  the finite values has the two infinities and \<^verbatim>\<open>NaN\<close>. A finite result is kept exact:
  the rounding of doubles to 53 bits is not modelled, and neither is the sign of zero. A
  result at or beyond \<open>2 ^ 1024 - 2 ^ 970\<close> in magnitude is the infinity to which IEEE 754
  rounds it.
\<close>

datatype Number = Fin real | PosInf | NegInf | NaN

definition overflow :: real where
  "overflow = 2 ^ 1024 - 2 ^ 970"

definition toNumber :: "real \<Rightarrow> Number" where
  "toNumber x =
     (if overflow \<le> x then PosInf
      else if x \<le> - overflow then NegInf
      else Fin x)"

fun negate :: "Number \<Rightarrow> Number" where
  "negate (Fin x) = Fin (- x)"
| "negate PosInf = NegInf"
| "negate NegInf = PosInf"
| "negate NaN = NaN"

fun add_js :: "Number \<Rightarrow> Number \<Rightarrow> Number" where
  "add_js (Fin x) (Fin y) = toNumber (x + y)"
| "add_js NaN b = NaN"
| "add_js a NaN = NaN"
| "add_js PosInf NegInf = NaN"
| "add_js NegInf PosInf = NaN"
| "add_js PosInf b = PosInf"
| "add_js NegInf b = NegInf"
| "add_js (Fin x) b = b"

definition subtract_js :: "Number \<Rightarrow> Number \<Rightarrow> Number" where
  "subtract_js a b = add_js a (negate b)"

text \<open>The sign of a number that is not \<^verbatim>\<open>NaN\<close>: \<open>1\<close>, \<open>0\<close> or \<open>- 1\<close>.\<close>

fun signum :: "Number \<Rightarrow> int" where
  "signum (Fin x) = (if x < 0 then - 1 else if 0 < x then 1 else 0)"
| "signum PosInf = 1"
| "signum NegInf = - 1"
| "signum NaN = 0"

definition infinity :: "int \<Rightarrow> Number" where
  "infinity s = (if s < 0 then NegInf else PosInf)"

fun multiply_js :: "Number \<Rightarrow> Number \<Rightarrow> Number" where
  "multiply_js (Fin x) (Fin y) = toNumber (x * y)"
| "multiply_js NaN b = NaN"
| "multiply_js a NaN = NaN"
| "multiply_js a b = (if signum a * signum b = 0 then NaN else infinity (signum a * signum b))"

fun divide_js :: "Number \<Rightarrow> Number \<Rightarrow> Number" where
  "divide_js (Fin x) (Fin y) =
     (if y = 0 then (if x = 0 then NaN else infinity (signum (Fin x))) else toNumber (x / y))"
| "divide_js NaN b = NaN"
| "divide_js a NaN = NaN"
| "divide_js (Fin x) b = Fin 0"
| "divide_js a (Fin y) = infinity (signum a * (if y < 0 then - 1 else 1))"
| "divide_js a b = NaN"

text \<open>\<^verbatim>\<open>x > 0\<close>, and \<open>x\<close> read as a condition (\<open>0\<close> and \<^verbatim>\<open>NaN\<close> are falsy).\<close>

definition positive_js :: "Number \<Rightarrow> bool" where
  "positive_js a = (signum a = 1)"

fun truthyNumber :: "Number \<Rightarrow> bool" where
  "truthyNumber (Fin x) = (x \<noteq> 0)"
| "truthyNumber NaN = False"
| "truthyNumber a = True"

section \<open>JSON values\<close>

text \<open>
  What \<^verbatim>\<open>JSON.parse\<close> returns: any JSON value. The code declares the value a
  \<^verbatim>\<open>Partial<Transaction>\<close>; an object is read at that type, the other values are kept as
  they are. \<open>truthy\<close> is the value read as a condition.
\<close>

datatype Json =
    JNull
  | JBool bool
  | JNumber real
  | JString string
  | JArray "Json list"
  | JObject Payload

fun truthy :: "Json \<Rightarrow> bool" where
  "truthy JNull = False"
| "truthy (JBool b) = b"
| "truthy (JNumber x) = (x \<noteq> 0)"
| "truthy (JString s) = (s \<noteq> [])"
| "truthy (JArray vs) = True"
| "truthy (JObject p) = True"

section \<open>The platform\<close>

text \<open>
  Two services of the JavaScript engine are parameters of the model, collected in one
  record.

  \<open>dateTime\<close> is \<^verbatim>\<open>new Date(s).getTime()\<close>: the time value of a date string in
  milliseconds, \<open>None\<close> standing for the \<^verbatim>\<open>NaN\<close> of an unparseable date.

  \<open>sortOrder\<close> is the order in which \<^verbatim>\<open>Array.prototype.sort\<close> leaves an array whose
  comparator is not consistent. ECMAScript fixes the result of \<^verbatim>\<open>sort\<close> only for a
  consistent comparator and leaves the order to the implementation otherwise. The engine
  sees the comparator on the positions of the array and the length, and answers with the
  positions in their new order.
\<close>

type_synonym DateParse = "string \<Rightarrow> int option"

type_synonym Engine = "(nat \<Rightarrow> nat \<Rightarrow> Number) \<Rightarrow> nat \<Rightarrow> nat list"

record Platform =
  dateTime :: DateParse
  sortOrder :: Engine

subsection \<open>Array.prototype.sort\<close>

text \<open>
  \<^verbatim>\<open>sort\<close> reads the comparator's value \<open>v\<close> by its sign, a \<^verbatim>\<open>NaN\<close> as \<open>0\<close>.
  A comparator is consistent on the elements of an array when it never yields \<^verbatim>\<open>NaN\<close>
  on them and its three relations (\<open>v < 0\<close>, \<open>v = 0\<close>, \<open>v > 0\<close>) are those of a total
  preorder: the five conditions of the language specification.
\<close>

definition consistent :: "('a \<Rightarrow> 'a \<Rightarrow> Number) \<Rightarrow> 'a list \<Rightarrow> bool" where
  "consistent c xs =
     ((\<forall>a\<in>set xs. \<forall>b\<in>set xs. c a b \<noteq> NaN)
      \<and> (\<forall>a\<in>set xs. signum (c a a) = 0)
      \<and> (\<forall>a\<in>set xs. \<forall>b\<in>set xs. signum (c a b) = 0 \<longrightarrow> signum (c b a) = 0)
      \<and> (\<forall>a\<in>set xs. \<forall>b\<in>set xs. \<forall>d\<in>set xs.
            signum (c a b) = 0 \<and> signum (c b d) = 0 \<longrightarrow> signum (c a d) = 0)
      \<and> (\<forall>a\<in>set xs. \<forall>b\<in>set xs. \<forall>d\<in>set xs.
            signum (c a b) < 0 \<and> signum (c b d) < 0 \<longrightarrow> signum (c a d) < 0)
      \<and> (\<forall>a\<in>set xs. \<forall>b\<in>set xs. \<forall>d\<in>set xs.
            signum (c a b) > 0 \<and> signum (c b d) > 0 \<longrightarrow> signum (c a d) > 0))"

text \<open>
  For a consistent comparator the result is the stable sort: \<open>x\<close> is moved behind \<open>y\<close>
  only if \<^verbatim>\<open>cmp(x, y) > 0\<close> (ECMAScript 2019). A stable insertion sort computes it.
\<close>

fun insertBy :: "('a \<Rightarrow> 'a \<Rightarrow> Number) \<Rightarrow> 'a \<Rightarrow> 'a list \<Rightarrow> 'a list" where
  "insertBy c x [] = [x]"
| "insertBy c x (y # ys) = (if signum (c x y) \<le> 0 then x # y # ys else y # insertBy c x ys)"

definition stableSort :: "('a \<Rightarrow> 'a \<Rightarrow> Number) \<Rightarrow> 'a list \<Rightarrow> 'a list" where
  "stableSort c xs = foldr (insertBy c) xs []"

text \<open>
  Otherwise the engine decides. Whatever it does, it returns the elements it was given: an
  answer that is not a rearrangement of the positions is read as the positions in their
  old order.
\<close>

definition engineSort :: "Engine \<Rightarrow> ('a \<Rightarrow> 'a \<Rightarrow> Number) \<Rightarrow> 'a list \<Rightarrow> 'a list" where
  "engineSort E c xs =
     (let n = length xs;
          order = E (\<lambda>i j. if i < n \<and> j < n then c (xs ! i) (xs ! j) else NaN) n
      in if mset order = mset [0..<n] then map (\<lambda>i. xs ! i) order else xs)"

definition sort_js :: "Engine \<Rightarrow> ('a \<Rightarrow> 'a \<Rightarrow> Number) \<Rightarrow> 'a list \<Rightarrow> 'a list" where
  "sort_js E c xs = (if consistent c xs then stableSort c xs else engineSort E c xs)"

section \<open>The record store (lib/store.ts)\<close>

text \<open>
  \<^verbatim>\<open>MockDatabase\<close> holds three arrays. Every mutating method ends with \<^verbatim>\<open>commit()\<close>, which
  writes the three arrays to \<^verbatim>\<open>localStorage\<close>. The persisted image is not part of the
  state. \<open>createTransaction\<close> is called inside the \<^verbatim>\<open>try\<close> block of the service layer, so
  what \<^verbatim>\<open>commit()\<close> does there is part of the answer: it is the parameter \<open>W\<close>, which
  tells for the store to be written whether \<^verbatim>\<open>localStorage.setItem\<close> throws (a full or
  disabled storage) and what. For the other mutating methods the model takes the write to
  succeed. Methods that mutate take the store and return the new one.
\<close>

record MockDatabase =
  users :: "User list"
  transactions :: "Transaction list"
  budgets :: "Budget list"

datatype Exn = Error string

type_synonym Commit = "MockDatabase \<Rightarrow> Exn option"

text \<open>
  The comparator \<^verbatim>\<open>(a, b) => new Date(b.date).getTime() - new Date(a.date).getTime()\<close>.
  A difference with a \<^verbatim>\<open>NaN\<close> operand is \<^verbatim>\<open>NaN\<close>.
\<close>

definition byDateDesc :: "DateParse \<Rightarrow> Transaction \<Rightarrow> Transaction \<Rightarrow> Number" where
  "byDateDesc P a b =
     (case (P (tx_date b), P (tx_date a)) of
        (Some tb, Some ta) \<Rightarrow> Fin (real_of_int (tb - ta))
      | _ \<Rightarrow> NaN)"

text \<open>\<^verbatim>\<open>new Date(d) >= new Date(s)\<close>: a comparison of time values, false when one is \<^verbatim>\<open>NaN\<close>.\<close>

definition dateGe :: "DateParse \<Rightarrow> string \<Rightarrow> string \<Rightarrow> bool" where
  "dateGe P d s =
     (case (P d, P s) of
        (Some td, Some ts) \<Rightarrow> ts \<le> td
      | _ \<Rightarrow> False)"

record Filters =
  f_category :: "string option"
  f_startDate :: "string option"

text \<open>
  \<^verbatim>\<open>filters?.category\<close> used as a condition: the field of an optional object, true when it
  is a non-empty string.
\<close>

definition given :: "Filters option \<Rightarrow> (Filters \<Rightarrow> string option) \<Rightarrow> string option" where
  "given filters field =
     (case filters of
        None \<Rightarrow> None
      | Some f \<Rightarrow> (case field f of None \<Rightarrow> None | Some s \<Rightarrow> if s = [] then None else Some s))"

definition getUser :: "MockDatabase \<Rightarrow> string \<Rightarrow> User option" where
  "getUser db ident = find (\<lambda>u. u_id u = ident) (users db)"

definition createUser :: "MockDatabase \<Rightarrow> User \<Rightarrow> User \<times> MockDatabase" where
  "createUser db user = (user, db\<lparr>users := users db @ [user]\<rparr>)"

definition getTransactions ::
  "Platform \<Rightarrow> MockDatabase \<Rightarrow> string \<Rightarrow> Filters option \<Rightarrow> Transaction list" where
  "getTransactions env db userId filters =
     (let data = filter (\<lambda>t. tx_userId t = userId) (transactions db);
          data = (case given filters f_category of
                    Some c \<Rightarrow> filter (\<lambda>t. tx_category t = c) data
                  | None \<Rightarrow> data);
          data = (case given filters f_startDate of
                    Some s \<Rightarrow> filter (\<lambda>t. dateGe (dateTime env) (tx_date t) s) data
                  | None \<Rightarrow> data)
      in sort_js (sortOrder env) (byDateDesc (dateTime env)) data)"

text \<open>
  \<^verbatim>\<open>this.transactions.push(tx); this.commit(); return tx\<close>: the record is in the array
  before the write is attempted, and stays there when the write throws.
\<close>

definition createTransaction ::
  "Commit \<Rightarrow> MockDatabase \<Rightarrow> Transaction \<Rightarrow> (Exn + Transaction) \<times> MockDatabase" where
  "createTransaction W db tx =
     (let db' = db\<lparr>transactions := transactions db @ [tx]\<rparr>
      in case W db' of
           Some e \<Rightarrow> (Inl e, db')
         | None \<Rightarrow> (Inr tx, db'))"


text \<open>\<^verbatim>\<open>txs.filter(t => t.category === b.category).reduce((sum, t) => sum + t.amount, 0)\<close>\<close>

definition spentOn :: "Transaction list \<Rightarrow> string \<Rightarrow> real" where
  "spentOn txs cat = foldl (\<lambda>sum t. sum + tx_amount t) 0 (filter (\<lambda>t. tx_category t = cat) txs)"

definition getBudgets :: "Platform \<Rightarrow> MockDatabase \<Rightarrow> string \<Rightarrow> Budget list" where
  "getBudgets env db userId =
     (let userBudgets = filter (\<lambda>b. b_userId b = userId) (budgets db);
          txs = getTransactions env db userId None
      in map (\<lambda>b. b\<lparr>b_spent := spentOn txs (b_category b)\<rparr>) userBudgets)"

fun replaceFirst :: "('a \<Rightarrow> bool) \<Rightarrow> 'a \<Rightarrow> 'a list \<Rightarrow> 'a list option" where
  "replaceFirst q v [] = None"
| "replaceFirst q v (x # xs) =
     (if q x then Some (v # xs) else map_option (\<lambda>r. x # r) (replaceFirst q v xs))"

definition upsertBudget :: "MockDatabase \<Rightarrow> Budget \<Rightarrow> Budget \<times> MockDatabase" where
  "upsertBudget db budget =
     (case replaceFirst (\<lambda>b. b_id b = b_id budget) budget (budgets db) of
        Some bs \<Rightarrow> (budget, db\<lparr>budgets := bs\<rparr>)
      | None \<Rightarrow> (budget, db\<lparr>budgets := budgets db @ [budget]\<rparr>))"

section \<open>The service layer (lib/api.ts)\<close>

text \<open>
  An exception is a value: a function that can throw returns \<open>Exn + 'a\<close>, \<open>Inl\<close> carrying
  what was thrown.
\<close>

record 'a ApiResponse =
  data :: "'a option"
  error :: "string option"
  status :: nat

text \<open>The operator \<^verbatim>\<open>||\<close>: the right operand replaces a left operand that is falsy.\<close>

definition orStr :: "string option \<Rightarrow> string \<Rightarrow> string" where
  "orStr x d = (case x of None \<Rightarrow> d | Some s \<Rightarrow> if s = [] then d else s)"

definition orNum :: "real option \<Rightarrow> real \<Rightarrow> real" where
  "orNum x d = (case x of None \<Rightarrow> d | Some a \<Rightarrow> if a = 0 then d else a)"

definition orList :: "'a list option \<Rightarrow> 'a list \<Rightarrow> 'a list" where
  "orList x d = (case x of None \<Rightarrow> d | Some l \<Rightarrow> l)"

definition orBool :: "bool option \<Rightarrow> bool \<Rightarrow> bool" where
  "orBool x d = (case x of None \<Rightarrow> d | Some b \<Rightarrow> if b then True else d)"

definition currentUserId :: string where
  "currentUserId = ''guest_user''"

definition getSession :: "MockDatabase \<Rightarrow> Exn + User" where
  "getSession db =
     (case getUser db currentUserId of
        None \<Rightarrow> Inl (Error ''Session invalid'')
      | Some user \<Rightarrow> Inr user)"

definition TransactionService_getAll :: "Platform \<Rightarrow> MockDatabase \<Rightarrow> Transaction list ApiResponse" where
  "TransactionService_getAll env db =
     \<lparr>data = Some (getTransactions env db currentUserId None), error = None, status = 200\<rparr>"

text \<open>
  \<^verbatim>\<open>TransactionService.create\<close>. The two readings of the environment, the identifier made
  from \<^verbatim>\<open>Math.random()\<close> and the clock's \<^verbatim>\<open>new Date().toISOString()\<close>, are the
  arguments \<open>rid\<close> and \<open>now\<close>. The \<^verbatim>\<open>catch\<close> block answers for everything that is thrown
  inside \<^verbatim>\<open>try\<close>: the missing session, and a write that fails in \<open>createTransaction\<close>
  after the record was pushed.
\<close>

definition newTx :: "string \<Rightarrow> string \<Rightarrow> User \<Rightarrow> Payload \<Rightarrow> Transaction" where
  "newTx rid now user payload =
     \<lparr>tx_id = rid,
      tx_userId = u_id user,
      tx_amount = orNum (p_amount payload) 0,
      tx_currency = orStr (p_currency payload) (pref_currency (u_preferences user)),
      tx_date = orStr (p_date payload) now,
      tx_category = orStr (p_category payload) ''Uncategorized'',
      tx_merchant = orStr (p_merchant payload) ''Unknown'',
      tx_description = orStr (p_description payload) [],
      tx_tags = orList (p_tags payload) [],
      tx_isRecurring = orBool (p_isRecurring payload) False,
      tx_aiMetadata = p_aiMetadata payload\<rparr>"

definition creationFailed :: "Transaction ApiResponse" where
  "creationFailed = \<lparr>data = None, error = Some ''Creation failed'', status = 500\<rparr>"

definition TransactionService_create ::
  "Commit \<Rightarrow> string \<Rightarrow> string \<Rightarrow> MockDatabase \<Rightarrow> Payload
     \<Rightarrow> Transaction ApiResponse \<times> MockDatabase" where
  "TransactionService_create W rid now db payload =
     (case getSession db of
        Inl e \<Rightarrow> (creationFailed, db)
      | Inr user \<Rightarrow>
          (case createTransaction W db (newTx rid now user payload) of
             (Inr saved, db') \<Rightarrow> (\<lparr>data = Some saved, error = None, status = 201\<rparr>, db')
           | (Inl e, db') \<Rightarrow> (creationFailed, db')))"


subsection \<open>Analytics\<close>

text \<open>
  \<^verbatim>\<open>catMap\<close> and \<^verbatim>\<open>trendMap\<close> are object literals \<^verbatim>\<open>{}\<close> used as dictionaries. Such an
  object has its own properties, kept here in the order of their creation, and it
  inherits the properties of \<^verbatim>\<open>Object.prototype\<close>: eleven functions and the accessor
  \<^verbatim>\<open>__proto__\<close>. A cell is declared a number; the statement \<^verbatim>\<open>m[k] = (m[k] || 0) + a\<close>
  can also leave a string in it, namely when \<^verbatim>\<open>m[k]\<close> reads an inherited function or
  object, to which \<^verbatim>\<open>+\<close> appends the amount as text. Such a string is not empty and
  does not read as a number; its characters are the engine's and are not modelled.
\<close>

datatype Cell = Num Number | Str

type_synonym Dict = "(string \<times> Cell) list"

definition inheritedNames :: "string list" where
  "inheritedNames =
     [''constructor'', ''__defineGetter__'', ''__defineSetter__'', ''hasOwnProperty'',
      ''__lookupGetter__'', ''__lookupSetter__'', ''isPrototypeOf'', ''propertyIsEnumerable'',
      ''toString'', ''valueOf'', ''__proto__'', ''toLocaleString'']"

datatype Lookup = Undefined | Own Cell | Inherited

definition lookup :: "Dict \<Rightarrow> string \<Rightarrow> Lookup" where
  "lookup m k =
     (case map_of m k of
        Some v \<Rightarrow> Own v
      | None \<Rightarrow> if k \<in> set inheritedNames then Inherited else Undefined)"

text \<open>\<^verbatim>\<open>(v || 0) + a\<close> for what was read and an amount \<open>a\<close>.\<close>

definition plusAmount :: "Lookup \<Rightarrow> real \<Rightarrow> Cell" where
  "plusAmount v a =
     (case v of
        Undefined \<Rightarrow> Num (add_js (Fin 0) (Fin a))
      | Own (Num n) \<Rightarrow> Num (add_js (if truthyNumber n then n else Fin 0) (Fin a))
      | Own Str \<Rightarrow> Str
      | Inherited \<Rightarrow> Str)"

text \<open>
  \<^verbatim>\<open>m[k] = v\<close>. The setter of \<^verbatim>\<open>__proto__\<close> ignores a value that is not an object, so
  under that name nothing is stored.
\<close>

definition assign :: "Dict \<Rightarrow> string \<Rightarrow> Cell \<Rightarrow> Dict" where
  "assign m k v =
     (if k = ''__proto__'' then m
      else if k \<in> fst ` set m then map (\<lambda>(k', v'). if k' = k then (k', v) else (k', v')) m
      else m @ [(k, v)])"

definition accumulate :: "Dict \<Rightarrow> string \<Rightarrow> real \<Rightarrow> Dict" where
  "accumulate m k a = assign m k (plusAmount (lookup m k) a)"

text \<open>
  \<^verbatim>\<open>Object.entries\<close> lists the own properties whose names are array indices first, in the
  order of the indices, and then the others in the order of their creation. An array
  index is the decimal numeral, without a leading zero, of a number below \<open>2 ^ 32 - 1\<close>.
\<close>

fun position :: "'a \<Rightarrow> 'a list \<Rightarrow> nat option" where
  "position c [] = None"
| "position c (d # ds) = (if c = d then Some 0 else map_option Suc (position c ds))"

definition digitOf :: "char \<Rightarrow> nat option" where
  "digitOf c = position c ''0123456789''"

fun decimal :: "nat \<Rightarrow> string \<Rightarrow> nat option" where
  "decimal acc [] = Some acc"
| "decimal acc (c # cs) =
     (case digitOf c of None \<Rightarrow> None | Some d \<Rightarrow> decimal (10 * acc + d) cs)"

definition arrayIndex :: "string \<Rightarrow> nat option" where
  "arrayIndex s =
     (case s of
        [] \<Rightarrow> None
      | c # cs \<Rightarrow>
          if c = CHR ''0'' \<and> cs \<noteq> [] then None
          else (case decimal 0 s of
                  None \<Rightarrow> None
                | Some n \<Rightarrow> if n < 2 ^ 32 - 1 then Some n else None))"

definition entries :: "Dict \<Rightarrow> (string \<times> Cell) list" where
  "entries m =
     map snd (sort_key fst (List.map_filter (\<lambda>e. map_option (\<lambda>n. (n, e)) (arrayIndex (fst e))) m))
     @ filter (\<lambda>e. arrayIndex (fst e) = None) m"

record CategorySpending =
  cs_category :: string
  cs_amount :: Cell
  cs_percentage :: Number

record MonthlyTrend =
  mt_date :: string
  mt_amount :: Cell

record AnalyticsSummary =
  totalSpent :: Number
  burnRate :: Number
  topCategories :: "CategorySpending list"
  trend :: "MonthlyTrend list"

text \<open>A cell in arithmetic: a string of the kind above converts to \<^verbatim>\<open>NaN\<close>.\<close>

definition cellNumber :: "Cell \<Rightarrow> Number" where
  "cellNumber v = (case v of Num n \<Rightarrow> n | Str \<Rightarrow> NaN)"

definition sumAmounts :: "Transaction list \<Rightarrow> Number" where
  "sumAmounts txs = foldl (\<lambda>sum t. add_js sum (Fin (tx_amount t))) (Fin 0) txs"

definition categoryMap :: "Transaction list \<Rightarrow> Dict" where
  "categoryMap txs = foldl (\<lambda>m t. accumulate m (tx_category t) (tx_amount t)) [] txs"

text \<open>The arrow function that turns an entry of \<^verbatim>\<open>catMap\<close> into a row, given \<^verbatim>\<open>totalSpent\<close>.\<close>

definition toSpending :: "Number \<Rightarrow> string \<times> Cell \<Rightarrow> CategorySpending" where
  "toSpending T =
     (\<lambda>(category, amount).
        \<lparr>cs_category = category, cs_amount = amount,
         cs_percentage =
           (if positive_js T then multiply_js (divide_js (cellNumber amount) T) (Fin 100) else Fin 0)\<rparr>)"

definition byAmountDesc :: "CategorySpending \<Rightarrow> CategorySpending \<Rightarrow> Number" where
  "byAmountDesc a b = subtract_js (cellNumber (cs_amount b)) (cellNumber (cs_amount a))"

definition topCategoriesOf :: "Platform \<Rightarrow> Transaction list \<Rightarrow> CategorySpending list" where
  "topCategoriesOf env txs =
     sort_js (sortOrder env) byAmountDesc
       (map (toSpending (sumAmounts txs)) (entries (categoryMap txs)))"

definition dayOf :: "string \<Rightarrow> string" where
  "dayOf d = takeWhile (\<lambda>c. c \<noteq> CHR ''T'') d"

definition trendMap :: "Transaction list \<Rightarrow> Dict" where
  "trendMap txs = foldl (\<lambda>m t. accumulate m (dayOf (tx_date t)) (tx_amount t)) [] txs"

definition byDateAsc :: "DateParse \<Rightarrow> MonthlyTrend \<Rightarrow> MonthlyTrend \<Rightarrow> Number" where
  "byDateAsc P a b =
     (case (P (mt_date a), P (mt_date b)) of
        (Some ta, Some tb) \<Rightarrow> Fin (real_of_int (ta - tb))
      | _ \<Rightarrow> NaN)"

definition trendOf :: "Platform \<Rightarrow> Transaction list \<Rightarrow> MonthlyTrend list" where
  "trendOf env txs =
     sort_js (sortOrder env) (byDateAsc (dateTime env))
       (map (\<lambda>(date, amount). \<lparr>mt_date = date, mt_amount = amount\<rparr>) (entries (trendMap txs)))"

definition getDashboardSummary :: "Platform \<Rightarrow> MockDatabase \<Rightarrow> AnalyticsSummary ApiResponse" where
  "getDashboardSummary env db =
     (let txs = getTransactions env db currentUserId None
      in \<lparr>data = Some \<lparr>totalSpent = sumAmounts txs, burnRate = Fin 0,
                        topCategories = topCategoriesOf env txs, trend = trendOf env txs\<rparr>,
          error = None, status = 200\<rparr>)"

subsection \<open>Budgets\<close>

definition defaultBudgets :: "Budget list" where
  "defaultBudgets =
     [\<lparr>b_id = ''b1'', b_userId = currentUserId, b_category = ''Food'', b_limitAmount = 500,
       b_period = monthly, b_spent = 0\<rparr>,
      \<lparr>b_id = ''b2'', b_userId = currentUserId, b_category = ''Transport'', b_limitAmount = 200,
       b_period = monthly, b_spent = 0\<rparr>,
      \<lparr>b_id = ''b3'', b_userId = currentUserId, b_category = ''Entertainment'', b_limitAmount = 300,
       b_period = monthly, b_spent = 0\<rparr>]"

definition BudgetService_getAll :: "Platform \<Rightarrow> MockDatabase \<Rightarrow> Budget list ApiResponse" where
  "BudgetService_getAll env db =
     (let bs = getBudgets env db currentUserId
      in if length bs = 0
         then \<lparr>data = Some defaultBudgets, error = None, status = 200\<rparr>
         else \<lparr>data = Some bs, error = None, status = 200\<rparr>)"

section \<open>The extraction gateway (lib/ai.ts)\<close>

text \<open>
  A request to \<^verbatim>\<open>ai.models.generateContent\<close>: the model, the contents and, for the two
  extraction calls, the response schema. The instruction texts and the thinking budget are
  left out; no property below reads them.
\<close>

datatype FieldType = NUMBER | STRING | BOOLEAN | ARRAY FieldType

record Schema =
  properties :: "(string \<times> FieldType) list"
  required :: "string list"

datatype Part = InlineData string string | TextPart string

datatype Contents = Prompt string | Parts "Part list"

record Request =
  model :: string
  contents :: Contents
  responseMimeType :: "string option"
  responseSchema :: "Schema option"

text \<open>Of the response only \<^verbatim>\<open>response.text\<close> is read; it may be \<^verbatim>\<open>undefined\<close>.\<close>

record GenResponse =
  r_text :: "string option"

text \<open>
  The remote model is a parameter: a function from the request to what the awaited call
  yields, \<open>Inl\<close> when the call rejects (network or provider failure).
\<close>

type_synonym Remote = "Request \<Rightarrow> Exn + GenResponse"

text \<open>
  \<^verbatim>\<open>JSON.parse\<close> is the platform's as well. Its parameter \<open>J\<close> gives the parsed value of a
  text, and \<open>None\<close> where \<^verbatim>\<open>JSON.parse\<close> throws a \<^verbatim>\<open>SyntaxError\<close>. The one text the
  code itself supplies is \<^verbatim>\<open>"{}"\<close>, whose value is the empty object.
\<close>

type_synonym JsonParse = "string \<Rightarrow> Json option"

definition JSON_parse :: "JsonParse \<Rightarrow> string \<Rightarrow> Json option" where
  "JSON_parse J s = (if s = ''{}'' then Some (JObject emptyPayload) else J s)"

definition MODEL_FAST :: string where
  "MODEL_FAST = ''gemini-3-flash-preview''"

definition MODEL_PRO :: string where
  "MODEL_PRO = ''gemini-3-pro-preview''"

definition parseTransactionRequest :: "string \<Rightarrow> Request" where
  "parseTransactionRequest input =
     \<lparr>model = MODEL_FAST,
      contents = Prompt input,
      responseMimeType = Some ''application/json'',
      responseSchema = Some
        \<lparr>properties =
           [(''amount'', NUMBER), (''currency'', STRING), (''merchant'', STRING),
            (''category'', STRING), (''date'', STRING), (''description'', STRING),
            (''isRecurring'', BOOLEAN), (''tags'', ARRAY STRING)],
         required = [''amount'', ''currency'', ''category'', ''date'']\<rparr>\<rparr>"

record ParseResult =
  transaction :: Json
  rawResponse :: string

definition parseTransactionWithAI :: "JsonParse \<Rightarrow> Remote \<Rightarrow> string \<Rightarrow> Exn + ParseResult" where
  "parseTransactionWithAI J remote input =
     (case remote (parseTransactionRequest input) of
        Inl e \<Rightarrow> Inl e
      | Inr response \<Rightarrow>
          (let txt = orStr (r_text response) ''{}'';
               d = (case JSON_parse J txt of Some v \<Rightarrow> v | None \<Rightarrow> JObject emptyPayload)
           in Inr \<lparr>transaction = d, rawResponse = txt\<rparr>))"

definition scanReceiptRequest :: "string \<Rightarrow> string \<Rightarrow> Request" where
  "scanReceiptRequest base64Image mimeType =
     \<lparr>model = MODEL_FAST,
      contents = Parts [InlineData base64Image mimeType, TextPart ''Extract receipt JSON.''],
      responseMimeType = Some ''application/json'',
      responseSchema = Some
        \<lparr>properties =
           [(''amount'', NUMBER), (''currency'', STRING), (''merchant'', STRING),
            (''category'', STRING), (''date'', STRING)],
         required = [''amount'', ''currency'', ''merchant'', ''date'']\<rparr>\<rparr>"

definition scanReceiptWithAI :: "JsonParse \<Rightarrow> Remote \<Rightarrow> string \<Rightarrow> string \<Rightarrow> Exn + Json" where
  "scanReceiptWithAI J remote base64Image mimeType =
     (case remote (scanReceiptRequest base64Image mimeType) of
        Inl e \<Rightarrow> Inl e
      | Inr response \<Rightarrow>
          (case JSON_parse J (orStr (r_text response) ''{}'') of
             Some v \<Rightarrow> Inr v
           | None \<Rightarrow> Inr (JObject emptyPayload)))"

text \<open>
  \<^verbatim>\<open>JSON.stringify\<close> of the history is the parameter \<open>stringify\<close>; the prompt is the template
  string of the source, with its two line feeds.
\<close>

definition coachRequest :: "(Transaction list \<Rightarrow> string) \<Rightarrow> Transaction list \<Rightarrow> string \<Rightarrow> Request" where
  "coachRequest stringify history query =
     (let context = stringify (take 50 history)
      in \<lparr>model = MODEL_PRO,
          contents = Prompt (''Transaction History: '' @ context @ [CHR 0x0A, CHR 0x0A]
                               @ ''User Inquiry: '' @ query),
          responseMimeType = None,
          responseSchema = None\<rparr>)"

definition askFinancialCoach ::
  "(Transaction list \<Rightarrow> string) \<Rightarrow> Remote \<Rightarrow> Transaction list \<Rightarrow> string \<Rightarrow> Exn + string" where
  "askFinancialCoach stringify remote history query =
     (case remote (coachRequest stringify history query) of
        Inl e \<Rightarrow> Inl e
      | Inr response \<Rightarrow> Inr (orStr (r_text response) ''Synchronicity lost. Please repeat the query.''))"

text \<open>The two endpoints of \<^verbatim>\<open>TransactionService\<close> that wrap the extraction calls.\<close>

definition parseNaturalLanguage :: "JsonParse \<Rightarrow> Remote \<Rightarrow> string \<Rightarrow> Exn + Json ApiResponse" where
  "parseNaturalLanguage J remote input =
     (case parseTransactionWithAI J remote input of
        Inl e \<Rightarrow> Inl e
      | Inr result \<Rightarrow> Inr \<lparr>data = Some (transaction result), error = None, status = 200\<rparr>)"

definition uploadReceipt :: "JsonParse \<Rightarrow> Remote \<Rightarrow> string \<Rightarrow> string \<Rightarrow> Exn + Json ApiResponse" where
  "uploadReceipt J remote fileBase64 mimeType =
     (case scanReceiptWithAI J remote fileBase64 mimeType of
        Inl e \<Rightarrow> Inl e
      | Inr result \<Rightarrow> Inr \<lparr>data = Some result, error = None, status = 200\<rparr>)"

section \<open>The magic input of the dashboard (App, debounced parsing effect)\<close>

text \<open>
  The state the effect reads and writes: the three \<^verbatim>\<open>useState\<close> cells \<^verbatim>\<open>magicInput\<close>,
  \<^verbatim>\<open>aiPreview\<close>, \<^verbatim>\<open>isProcessing\<close>, the timeout behind \<^verbatim>\<open>timerRef\<close> and the calls that
  are awaited. A timeout and a call are represented by the value of \<^verbatim>\<open>magicInput\<close> that
  their closure captured. The browser's event loop delivers one event at a time:
  \<^item> \<open>SetMagicInput s\<close>: the input's \<^verbatim>\<open>onChange\<close>; the effect runs when the value changed;
  \<^item> \<open>TimerFired\<close>: the pending timeout (if any) runs its callback up to the \<^verbatim>\<open>await\<close>;
  \<^item> \<open>Settled i out\<close>: the \<open>i\<close>-th awaited call completes, the remote model having
    answered \<open>out\<close>; the callback runs to its end.

  \<open>noPreview\<close> is the condition \<^verbatim>\<open>!aiPreview\<close>, and the callback sets the preview under
  the condition \<^verbatim>\<open>res.data\<close>.
\<close>

record App =
  magicInput :: string
  aiPreview :: "Json option"
  isProcessing :: bool
  timer :: "string option"
  awaiting :: "string list"

datatype Event = SetMagicInput string | TimerFired | Settled nat "Exn + GenResponse"

definition initialApp :: App where
  "initialApp = \<lparr>magicInput = [], aiPreview = None, isProcessing = False, timer = None, awaiting = []\<rparr>"

definition noPreview :: "App \<Rightarrow> bool" where
  "noPreview app = (case aiPreview app of None \<Rightarrow> True | Some d \<Rightarrow> \<not> truthy d)"

definition dropAt :: "nat \<Rightarrow> 'a list \<Rightarrow> 'a list" where
  "dropAt i xs = take i xs @ drop (Suc i) xs"

fun step :: "JsonParse \<Rightarrow> App \<Rightarrow> Event \<Rightarrow> App" where
  "step J app (SetMagicInput s) =
     (if s = magicInput app then app
      else if length s > 8 \<and> noPreview app
           then app\<lparr>magicInput := s, timer := Some s\<rparr>
           else app\<lparr>magicInput := s\<rparr>)"
| "step J app TimerFired =
     (case timer app of
        None \<Rightarrow> app
      | Some s \<Rightarrow> app\<lparr>isProcessing := True, timer := None, awaiting := awaiting app @ [s]\<rparr>)"
| "step J app (Settled i out) =
     (if i < length (awaiting app)
      then (let rest = dropAt i (awaiting app)
            in case parseNaturalLanguage J (\<lambda>request. out) (awaiting app ! i) of
                 Inl e \<Rightarrow> app\<lparr>isProcessing := False, awaiting := rest\<rparr>
               | Inr res \<Rightarrow>
                   (case data res of
                      Some d \<Rightarrow>
                        if truthy d
                        then app\<lparr>aiPreview := Some d, isProcessing := False, awaiting := rest\<rparr>
                        else app\<lparr>isProcessing := False, awaiting := rest\<rparr>
                    | None \<Rightarrow> app\<lparr>isProcessing := False, awaiting := rest\<rparr>))
      else app)"

definition run :: "JsonParse \<Rightarrow> App \<Rightarrow> Event list \<Rightarrow> App" where
  "run J app events = foldl (step J) app events"

section \<open>Specification predicates\<close>

text \<open>
  From the words of the specification: the transactions that a query is about are those
  owned by the user, of the category asked for when the filters name one, and dated on or
  after the lower bound when the filters name one (the bound itself included). A date
  that does not parse is on neither side of a bound.
\<close>

definition matches :: "DateParse \<Rightarrow> string \<Rightarrow> Filters option \<Rightarrow> Transaction \<Rightarrow> bool" where
  "matches P userId filters t =
     (tx_userId t = userId
      \<and> (case filters of
            None \<Rightarrow> True
          | Some f \<Rightarrow>
              (case f_category f of None \<Rightarrow> True | Some c \<Rightarrow> tx_category t = c)
              \<and> (case f_startDate f of
                    None \<Rightarrow> True
                  | Some s \<Rightarrow>
                      (case P s of
                         None \<Rightarrow> False
                       | Some bound \<Rightarrow>
                           (case P (tx_date t) of None \<Rightarrow> False | Some d \<Rightarrow> bound \<le> d)))))"

text \<open>Filters none of whose fields is the empty string.\<close>

definition nonEmptyFilters :: "Filters option \<Rightarrow> bool" where
  "nonEmptyFilters filters =
     (case filters of
        None \<Rightarrow> True
      | Some f \<Rightarrow> f_category f \<noteq> Some [] \<and> f_startDate f \<noteq> Some [])"

text \<open>
  The filters as a query reads them: a field that is the empty string counts as absent.
\<close>

definition effective :: "Filters option \<Rightarrow> Filters option" where
  "effective filters =
     map_option
       (\<lambda>f. \<lparr>f_category = (if f_category f = Some [] then None else f_category f),
             f_startDate = (if f_startDate f = Some [] then None else f_startDate f)\<rparr>)
       filters"

text \<open>A list of transactions in the order of their dates, latest first.\<close>

definition latestFirst :: "DateParse \<Rightarrow> Transaction list \<Rightarrow> bool" where
  "latestFirst P txs =
     sorted_wrt (\<lambda>a b. \<exists>ta tb. P (tx_date a) = Some ta \<and> P (tx_date b) = Some tb \<and> tb \<le> ta) txs"

text \<open>
  The closed enumeration of categories: the seven names that the instruction text of
  \<^verbatim>\<open>parseTransactionWithAI\<close> lists, and the default \<^verbatim>\<open>'Uncategorized'\<close> of
  \<^verbatim>\<open>TransactionService.create\<close>.
\<close>

definition enumeration :: "string list" where
  "enumeration = [''Food'', ''Transport'', ''Utilities'', ''Entertainment'', ''Health'',
                  ''Shopping'', ''Other'', ''Uncategorized'']"

text \<open>The fixed string that \<open>askFinancialCoach\<close> returns for a response without text.\<close>

definition fallback :: string where
  "fallback = ''Synchronicity lost. Please repeat the query.''"

text \<open>What the text-parse call extracts from a response that was transported.\<close>

definition extracted :: "JsonParse \<Rightarrow> GenResponse \<Rightarrow> Json" where
  "extracted J response =
     (case JSON_parse J (orStr (r_text response) ''{}'') of
        Some v \<Rightarrow> v
      | None \<Rightarrow> JObject emptyPayload)"

section \<open>Sample data\<close>

text \<open>
  A small store on which the theorems below are exercised: the guest user that the
  constructor of \<^verbatim>\<open>MockDatabase\<close> creates, a second user, and a clock that knows three
  days (their time values in milliseconds) and rejects every other string. The sample
  engine leaves an array as it is when the comparator is not consistent.
\<close>

definition guest :: User where
  "guest = \<lparr>u_id = ''guest_user'', u_email = ''guest@zen.finance'', u_name = ''Zen Traveler'',
            u_preferences = \<lparr>pref_currency = ''USD'', pref_theme = dark\<rparr>,
            u_createdAt = ''2024-01-01T00:00:00.000Z''\<rparr>"

definition sampleTx :: "string \<Rightarrow> string \<Rightarrow> real \<Rightarrow> string \<Rightarrow> string \<Rightarrow> Transaction" where
  "sampleTx ident userId amount date category =
     \<lparr>tx_id = ident, tx_userId = userId, tx_amount = amount, tx_currency = ''USD'',
      tx_date = date, tx_category = category, tx_merchant = ''Unknown'', tx_description = [],
      tx_tags = [], tx_isRecurring = False, tx_aiMetadata = None\<rparr>"

definition sampleClock :: DateParse where
  "sampleClock s =
     (if s = ''2024-01-01'' then Some 1704067200000
      else if s = ''2024-01-02'' then Some 1704153600000
      else if s = ''2024-01-03'' then Some 1704240000000
      else None)"

definition keepOrder :: Engine where
  "keepOrder c n = [0..<n]"

definition sampleEnv :: Platform where
  "sampleEnv = \<lparr>dateTime = sampleClock, sortOrder = keepOrder\<rparr>"

text \<open>A storage that takes every write, and one that is full.\<close>

definition stored :: Commit where
  "stored db = None"

definition storageFull :: Commit where
  "storageFull db = Some (Error ''QuotaExceededError'')"

text \<open>
  The store as the constructor leaves it on an empty storage, and a store hydrated from a
  storage whose only user is not the one of the session.
\<close>

definition emptyDb :: MockDatabase where
  "emptyDb = \<lparr>users = [guest], transactions = [], budgets = []\<rparr>"

definition noUserDb :: MockDatabase where
  "noUserDb = \<lparr>users = [guest\<lparr>u_id := ''other_user''\<rparr>], transactions = [], budgets = []\<rparr>"

definition sampleDb :: MockDatabase where
  "sampleDb =
     \<lparr>users = [guest],
      transactions =
        [sampleTx ''t1'' ''guest_user'' 40 ''2024-01-01'' ''Food'',
         sampleTx ''t2'' ''guest_user'' 15 ''2024-01-03'' ''Transport'',
         sampleTx ''t3'' ''other_user'' 99 ''2024-01-02'' ''Food'',
         sampleTx ''t4'' ''guest_user'' 25 ''2024-01-03'' ''Food''],
      budgets =
        [\<lparr>b_id = ''b9'', b_userId = ''guest_user'', b_category = ''Food'', b_limitAmount = 100,
          b_period = weekly, b_spent = 0\<rparr>]\<rparr>"

text \<open>A store in which the second of three records has a date that is no date.\<close>

definition mixedDb :: MockDatabase where
  "mixedDb =
     \<lparr>users = [guest],
      transactions =
        [sampleTx ''m1'' ''guest_user'' 10 ''2024-01-01'' ''Food'',
         sampleTx ''m2'' ''guest_user'' 20 ''someday'' ''Food'',
         sampleTx ''m3'' ''guest_user'' 30 ''2024-01-03'' ''Food''],
      budgets = []\<rparr>"

text \<open>A store without budgets holding one purchase of food.\<close>

definition foodDb :: MockDatabase where
  "foodDb =
     snd (createTransaction stored emptyDb (sampleTx ''t1'' ''guest_user'' 40 ''2024-01-01'' ''Food''))"

text \<open>
  Two stores whose only record has a category that is also the name of a property that
  every object inherits.
\<close>

definition protoDb :: MockDatabase where
  "protoDb =
     \<lparr>users = [guest],
      transactions = [sampleTx ''p1'' ''guest_user'' 40 ''2024-01-01'' ''__proto__''],
      budgets = []\<rparr>"

definition constructorDb :: MockDatabase where
  "constructorDb =
     \<lparr>users = [guest],
      transactions = [sampleTx ''c1'' ''guest_user'' 40 ''2024-01-01'' ''constructor''],
      budgets = []\<rparr>"

text \<open>A payload with a negative amount, a date that is no date and a category of its own.\<close>

definition badPayload :: Payload where
  "badPayload = emptyPayload\<lparr>p_amount := Some (- 5), p_date := Some ''someday'',
                              p_category := Some ''Dining''\<rparr>"

text \<open>
  Stand-ins for the platform and the remote model: a JSON parser that rejects every text,
  one that knows an object and the value \<^verbatim>\<open>null\<close>, a model that answers with a given text
  and one whose call fails.
\<close>

definition rejecting :: JsonParse where
  "rejecting s = None"

definition sampleJson :: JsonParse where
  \<open>sampleJson s =
     (if s = ''{"amount":40}'' then Some (JObject (emptyPayload\<lparr>p_amount := Some 40\<rparr>))
      else if s = ''null'' then Some JNull
      else None)\<close>

definition answering :: "string option \<Rightarrow> Remote" where
  "answering t request = Inr \<lparr>r_text = t\<rparr>"

definition failing :: Remote where
  "failing request = Inl (Error ''fetch failed'')"

section \<open>Querying transactions\<close>

lemma mset_insertBy: "mset (insertBy c x ys) = add_mset x (mset ys)"
  by (induction ys) auto

lemma stableSort_Cons: "stableSort c (x # xs) = insertBy c x (stableSort c xs)"
  by (simp add: stableSort_def)

lemma mset_stableSort: "mset (stableSort c xs) = mset xs"
  by (induction xs) (simp_all add: stableSort_def mset_insertBy)

lemma set_stableSort: "set (stableSort c xs) = set xs"
  using mset_stableSort [of c xs] by (metis set_mset_mset)

lemma set_insertBy: "set (insertBy c x ys) = insert x (set ys)"
  using mset_insertBy [of c x ys] by (metis set_mset_mset set_mset_add_mset_insert)

lemma mset_engineSort: "mset (engineSort E c xs) = mset xs"
proof -
  have "mset (map (\<lambda>i. xs ! i) order) = mset xs" if "mset order = mset [0..<length xs]" for order
  proof -
    have "mset (map (\<lambda>i. xs ! i) order) = image_mset (\<lambda>i. xs ! i) (mset order)"
      by simp
    also have "\<dots> = mset (map (\<lambda>i. xs ! i) [0..<length xs])"
      using that by simp
    also have "\<dots> = mset xs"
      by (simp add: map_nth)
    finally show ?thesis .
  qed
  then show ?thesis
    by (simp add: engineSort_def Let_def)
qed

lemma mset_sort_js: "mset (sort_js E c xs) = mset xs"
  by (simp add: sort_js_def mset_stableSort mset_engineSort)

lemma set_sort_js: "set (sort_js E c xs) = set xs"
  using mset_sort_js [of E c xs] by (metis set_mset_mset)

lemma engineSort_keepOrder: "engineSort keepOrder c xs = xs"
  by (simp add: engineSort_def keepOrder_def map_nth)

lemma signum_Fin_le: "signum (Fin z) \<le> 0 \<longleftrightarrow> z \<le> 0"
  by simp

lemma consistent_key:
  assumes "\<forall>a\<in>set xs. \<forall>b\<in>set xs. c a b = Fin (k b - k a)"
  shows "consistent c xs"
  unfolding consistent_def using assms by auto

lemma sort_js_key:
  assumes "\<forall>a\<in>set xs. \<forall>b\<in>set xs. c a b = Fin (k b - k a)"
  shows "sort_js E c xs = stableSort c xs"
  using consistent_key [OF assms] by (simp add: sort_js_def)

lemma sorted_insertBy:
  assumes "\<forall>y\<in>set ys. c x y = Fin (k y - k x)"
    and "sorted_wrt (\<lambda>a b. k b \<le> k a) ys"
  shows "sorted_wrt (\<lambda>a b. k b \<le> k a) (insertBy c x ys)"
  using assms
proof (induction ys)
  case Nil
  then show ?case by simp
next
  case (Cons y ys)
  show ?case
  proof (cases "signum (c x y) \<le> 0")
    case True
    with Cons.prems have "k y \<le> k x" by (simp add: signum_Fin_le del: signum.simps)
    with Cons.prems True show ?thesis by auto
  next
    case False
    with Cons.prems have "k x < k y" by (simp add: signum_Fin_le del: signum.simps)
    with Cons False show ?thesis by (auto simp: set_insertBy)
  qed
qed

lemma sorted_stableSort:
  assumes "\<forall>x\<in>set xs. \<forall>y\<in>set xs. c x y = Fin (k y - k x)"
  shows "sorted_wrt (\<lambda>a b. k b \<le> k a) (stableSort c xs)"
  using assms
proof (induction xs)
  case Nil
  then show ?case by (simp add: stableSort_def)
next
  case (Cons x xs)
  have "sorted_wrt (\<lambda>a b. k b \<le> k a) (stableSort c xs)"
    using Cons by simp
  moreover have "\<forall>y\<in>set (stableSort c xs). c x y = Fin (k y - k x)"
    using Cons.prems by (simp add: set_stableSort)
  ultimately show ?case
    by (simp add: stableSort_Cons sorted_insertBy)
qed

lemma filter_insertBy_other: "\<not> q x \<Longrightarrow> filter q (insertBy c x ys) = filter q ys"
  by (induction ys) auto

lemma filter_insertBy_same:
  "q x \<Longrightarrow> \<forall>y\<in>set ys. q y \<longrightarrow> signum (c x y) \<le> 0 \<Longrightarrow>
   filter q (insertBy c x ys) = x # filter q ys"
  by (induction ys) auto

lemma stableSort_stable:
  assumes "\<forall>x\<in>set xs. \<forall>y\<in>set xs. q x \<longrightarrow> q y \<longrightarrow> signum (c x y) \<le> 0"
  shows "filter q (stableSort c xs) = filter q xs"
  using assms
proof (induction xs)
  case Nil
  then show ?case by (simp add: stableSort_def)
next
  case (Cons x xs)
  have ih: "filter q (stableSort c xs) = filter q xs"
    using Cons by simp
  show ?case
  proof (cases "q x")
    case True
    have "\<forall>y\<in>set (stableSort c xs). q y \<longrightarrow> signum (c x y) \<le> 0"
      using Cons.prems True by (simp add: set_stableSort)
    with True ih show ?thesis
      by (simp add: stableSort_Cons filter_insertBy_same)
  next
    case False
    with ih show ?thesis
      by (simp add: stableSort_Cons filter_insertBy_other)
  qed
qed

lemma getTransactions_filter:
  assumes "nonEmptyFilters filters"
  shows "getTransactions env db userId filters =
     sort_js (sortOrder env) (byDateDesc (dateTime env))
       (filter (matches (dateTime env) userId filters) (transactions db))"
proof -
  let ?P = "dateTime env"
  have "filter (matches ?P userId filters) (transactions db) =
     (let data = filter (\<lambda>t. tx_userId t = userId) (transactions db);
          data = (case given filters f_category of
                    Some c \<Rightarrow> filter (\<lambda>t. tx_category t = c) data
                  | None \<Rightarrow> data)
      in (case given filters f_startDate of
                    Some s \<Rightarrow> filter (\<lambda>t. dateGe ?P (tx_date t) s) data
                  | None \<Rightarrow> data))"
  proof (cases filters)
    case None
    then show ?thesis
      by (auto simp add: matches_def given_def intro!: filter_cong)
  next
    case (Some f)
    with assms have ne: "f_category f \<noteq> Some []" "f_startDate f \<noteq> Some []"
      by (simp_all add: nonEmptyFilters_def)
    show ?thesis
      using Some ne
      by (cases "f_category f"; cases "f_startDate f")
         (auto simp add: matches_def given_def dateGe_def intro!: filter_cong split: option.splits)
  qed
  then show ?thesis
    by (simp add: getTransactions_def Let_def)
qed

lemma byDateDesc_valid:
  "P (tx_date x) \<noteq> None \<Longrightarrow> P (tx_date y) \<noteq> None \<Longrightarrow>
   byDateDesc P x y = Fin (real_of_int (the (P (tx_date y))) - real_of_int (the (P (tx_date x))))"
  by (auto simp add: byDateDesc_def split: option.splits)

lemma byDateDesc_ties:
  "P (tx_date x) \<noteq> None \<Longrightarrow> P (tx_date x) = P (tx_date y) \<Longrightarrow> signum (byDateDesc P x y) \<le> 0"
  by (auto simp add: byDateDesc_def split: option.splits)

lemma getTransactions_dated:
  assumes "nonEmptyFilters filters"
    and "\<forall>t\<in>set (transactions db).
           matches (dateTime env) userId filters t \<longrightarrow> dateTime env (tx_date t) \<noteq> None"
  shows "getTransactions env db userId filters =
     stableSort (byDateDesc (dateTime env))
       (filter (matches (dateTime env) userId filters) (transactions db))"
proof -
  let ?P = "dateTime env"
  let ?xs = "filter (matches ?P userId filters) (transactions db)"
  have "\<forall>x\<in>set ?xs. \<forall>y\<in>set ?xs.
      byDateDesc ?P x y =
        Fin (real_of_int (the (?P (tx_date y))) - real_of_int (the (?P (tx_date x))))"
    using assms(2) by (simp add: byDateDesc_valid)
  then have "sort_js (sortOrder env) (byDateDesc ?P) ?xs = stableSort (byDateDesc ?P) ?xs"
    by (rule sort_js_key)
  with getTransactions_filter [OF assms(1)] show ?thesis by simp
qed

lemma getTransactions_nonEmpty:
  assumes "nonEmptyFilters filters"
  shows "mset (getTransactions env db userId filters)
       = filter_mset (matches (dateTime env) userId filters) (mset (transactions db))
   \<and> ((\<forall>t\<in>set (transactions db).
          matches (dateTime env) userId filters t \<longrightarrow> dateTime env (tx_date t) \<noteq> None)
        \<longrightarrow> latestFirst (dateTime env) (getTransactions env db userId filters)
            \<and> (\<forall>k. filter (\<lambda>t. dateTime env (tx_date t) = Some k)
                       (getTransactions env db userId filters)
                   = filter (\<lambda>t. dateTime env (tx_date t) = Some k)
                       (filter (matches (dateTime env) userId filters) (transactions db))))
   \<and> ((\<forall>t\<in>set (transactions db). \<not> matches (dateTime env) userId filters t)
        \<longrightarrow> getTransactions env db userId filters = [])
   \<and> (matches (dateTime env) userId filters tx
        \<longrightarrow> tx \<in> set (getTransactions env (snd (createTransaction W db tx)) userId filters))"
proof -
  let ?P = "dateTime env"
  let ?M = "matches ?P userId filters"
  let ?xs = "filter ?M (transactions db)"
  let ?r = "getTransactions env db userId filters"
  have r: "?r = sort_js (sortOrder env) (byDateDesc ?P) ?xs"
    by (rule getTransactions_filter [OF assms])
  have a: "mset ?r = filter_mset ?M (mset (transactions db))"
    by (simp add: r mset_sort_js)
  have b: "latestFirst ?P ?r
           \<and> (\<forall>k. filter (\<lambda>t. ?P (tx_date t) = Some k) ?r = filter (\<lambda>t. ?P (tx_date t) = Some k) ?xs)"
    if v: "\<forall>t\<in>set (transactions db). ?M t \<longrightarrow> ?P (tx_date t) \<noteq> None"
  proof -
    have s: "?r = stableSort (byDateDesc ?P) ?xs"
      by (rule getTransactions_dated [OF assms v])
    have ok: "\<forall>x\<in>set ?xs. ?P (tx_date x) \<noteq> None"
      using v by simp
    then have "\<forall>x\<in>set ?xs. \<forall>y\<in>set ?xs.
        byDateDesc ?P x y =
          Fin (real_of_int (the (?P (tx_date y))) - real_of_int (the (?P (tx_date x))))"
      by (simp add: byDateDesc_valid)
    then have o: "sorted_wrt (\<lambda>a b. real_of_int (the (?P (tx_date b))) \<le> real_of_int (the (?P (tx_date a)))) ?r"
      unfolding s by (rule sorted_stableSort)
    have v': "\<forall>x\<in>set ?r. ?P (tx_date x) \<noteq> None"
      using ok by (simp add: s set_stableSort)
    have "latestFirst ?P ?r"
      unfolding latestFirst_def
    proof (rule sorted_wrt_mono_rel [OF _ o])
      fix x y
      assume "x \<in> set ?r" and "y \<in> set ?r"
      with v' obtain ta tb where "?P (tx_date x) = Some ta" and "?P (tx_date y) = Some tb"
        by (meson not_Some_eq)
      moreover assume "real_of_int (the (?P (tx_date y))) \<le> real_of_int (the (?P (tx_date x)))"
      ultimately show "\<exists>ta tb. ?P (tx_date x) = Some ta \<and> ?P (tx_date y) = Some tb \<and> tb \<le> ta"
        by simp
    qed
    moreover have "filter (\<lambda>t. ?P (tx_date t) = Some k) ?r = filter (\<lambda>t. ?P (tx_date t) = Some k) ?xs" for k
      unfolding s by (rule stableSort_stable) (simp add: byDateDesc_ties)
    ultimately show ?thesis by simp
  qed
  have d: "?r = []" if "\<forall>t\<in>set (transactions db). \<not> ?M t"
  proof -
    from that have "?xs = []" by (simp add: filter_empty_conv)
    then have "mset ?r = {#}" by (simp add: r mset_sort_js)
    then show ?thesis by simp
  qed
  have e: "tx \<in> set (getTransactions env (snd (createTransaction W db tx)) userId filters)" if "?M tx"
  proof -
    have "transactions (snd (createTransaction W db tx)) = transactions db @ [tx]"
      by (simp add: createTransaction_def Let_def split: option.splits)
    with that show ?thesis
      by (simp add: getTransactions_filter [OF assms] set_sort_js)
  qed
  from a b d e show ?thesis by blast
qed

lemma getTransactions_effective:
  "getTransactions env db userId (effective filters) = getTransactions env db userId filters"
  by (cases filters) (simp_all add: getTransactions_def given_def effective_def)

lemma nonEmptyFilters_effective: "nonEmptyFilters (effective filters)"
  by (cases filters) (simp_all add: nonEmptyFilters_def effective_def)

lemma effective_nonEmpty: "nonEmptyFilters filters \<Longrightarrow> effective filters = filters"
  by (cases filters) (simp_all add: nonEmptyFilters_def effective_def)

text \<open>
  Claim C4, as amended. A filter field that is the empty string counts as absent. For
  every store, user and filters, \<open>getTransactions\<close> returns exactly the transactions
  that match the filters so read (each as often as it is stored): owned by the user, of
  the category asked for, and dated on or after the lower bound, the bound included. When
  every matching transaction has a parseable date, the result is ordered by date, latest
  first, and transactions of the same date keep their insertion order. When nothing
  matches the result is the empty list, and a transaction that matches is in the result
  right after it was created.
\<close>

theorem getTransactions_spec:
  "mset (getTransactions env db userId filters)
       = filter_mset (matches (dateTime env) userId (effective filters)) (mset (transactions db))
   \<and> ((\<forall>t\<in>set (transactions db).
          matches (dateTime env) userId (effective filters) t \<longrightarrow> dateTime env (tx_date t) \<noteq> None)
        \<longrightarrow> latestFirst (dateTime env) (getTransactions env db userId filters)
            \<and> (\<forall>k. filter (\<lambda>t. dateTime env (tx_date t) = Some k)
                       (getTransactions env db userId filters)
                   = filter (\<lambda>t. dateTime env (tx_date t) = Some k)
                       (filter (matches (dateTime env) userId (effective filters)) (transactions db))))
   \<and> ((\<forall>t\<in>set (transactions db). \<not> matches (dateTime env) userId (effective filters) t)
        \<longrightarrow> getTransactions env db userId filters = [])
   \<and> (matches (dateTime env) userId (effective filters) tx
        \<longrightarrow> tx \<in> set (getTransactions env (snd (createTransaction W db tx)) userId filters))
   \<and> (nonEmptyFilters filters \<longrightarrow> effective filters = filters)"
  using getTransactions_nonEmpty [OF nonEmptyFilters_effective, of env db userId filters tx W]
    effective_nonEmpty [of filters]
  by (simp only: getTransactions_effective) blast

theorem getTransactions_spec_witness:
  "latestFirst sampleClock (getTransactions sampleEnv sampleDb ''guest_user'' None)
   \<and> getTransactions sampleEnv sampleDb ''guest_user'' None =
       [sampleTx ''t2'' ''guest_user'' 15 ''2024-01-03'' ''Transport'',
        sampleTx ''t4'' ''guest_user'' 25 ''2024-01-03'' ''Food'',
        sampleTx ''t1'' ''guest_user'' 40 ''2024-01-01'' ''Food'']
   \<and> getTransactions sampleEnv sampleDb ''guest_user''
         (Some \<lparr>f_category = Some ''Food'', f_startDate = Some ''2024-01-03''\<rparr>) =
       [sampleTx ''t4'' ''guest_user'' 25 ''2024-01-03'' ''Food'']
   \<and> getTransactions sampleEnv sampleDb ''guest_user''
         (Some \<lparr>f_category = None, f_startDate = Some ''2024-01-02''\<rparr>) =
       [sampleTx ''t2'' ''guest_user'' 15 ''2024-01-03'' ''Transport'',
        sampleTx ''t4'' ''guest_user'' 25 ''2024-01-03'' ''Food'']
   \<and> getTransactions sampleEnv sampleDb ''nobody'' None = []
   \<and> getTransactions sampleEnv sampleDb ''guest_user''
         (Some \<lparr>f_category = Some ''Rent'', f_startDate = Some []\<rparr>) = []
   \<and> sampleTx ''t5'' ''guest_user'' 7 ''2024-01-03'' ''Food''
       \<in> set (getTransactions sampleEnv
                (snd (createTransaction stored sampleDb
                        (sampleTx ''t5'' ''guest_user'' 7 ''2024-01-03'' ''Food'')))
                ''guest_user''
                (Some \<lparr>f_category = Some ''Food'', f_startDate = Some ''2024-01-03''\<rparr>))"
proof -
  let ?onBound = "Some \<lparr>f_category = Some ''Food'', f_startDate = Some ''2024-01-03''\<rparr>"
  let ?after = "Some \<lparr>f_category = None, f_startDate = Some ''2024-01-02''\<rparr>"
  let ?rent = "Some \<lparr>f_category = Some ''Rent'', f_startDate = Some []\<rparr>"
  let ?t5 = "sampleTx ''t5'' ''guest_user'' 7 ''2024-01-03'' ''Food''"
  have f: "nonEmptyFilters None" "nonEmptyFilters ?onBound" "nonEmptyFilters ?after"
    by (simp_all add: nonEmptyFilters_def)
  have h: "\<forall>t\<in>set (transactions sampleDb).
             matches (dateTime sampleEnv) ''guest_user'' fs t \<longrightarrow> dateTime sampleEnv (tx_date t) \<noteq> None" for fs
    by (simp add: sampleDb_def sampleTx_def sampleClock_def sampleEnv_def)
  have n: "\<forall>t\<in>set (transactions sampleDb). \<not> matches (dateTime sampleEnv) ''nobody'' (effective None) t"
    by (simp add: sampleDb_def sampleTx_def matches_def effective_def)
  have r: "\<forall>t\<in>set (transactions sampleDb). \<not> matches (dateTime sampleEnv) ''guest_user'' (effective ?rent) t"
    by (simp add: sampleDb_def sampleTx_def matches_def effective_def)
  have m: "matches (dateTime sampleEnv) ''guest_user'' (effective ?onBound) ?t5"
    by (simp add: matches_def effective_def sampleTx_def sampleEnv_def sampleClock_def)
  have c: "dateTime sampleEnv = sampleClock"
    by (simp add: sampleEnv_def)
  have "getTransactions sampleEnv sampleDb ''guest_user'' None =
       [sampleTx ''t2'' ''guest_user'' 15 ''2024-01-03'' ''Transport'',
        sampleTx ''t4'' ''guest_user'' 25 ''2024-01-03'' ''Food'',
        sampleTx ''t1'' ''guest_user'' 40 ''2024-01-01'' ''Food'']"
    unfolding getTransactions_dated [OF f(1) h]
    by (simp add: c matches_def sampleDb_def sampleTx_def sampleClock_def stableSort_def
        byDateDesc_def)
  moreover have "getTransactions sampleEnv sampleDb ''guest_user'' ?onBound =
       [sampleTx ''t4'' ''guest_user'' 25 ''2024-01-03'' ''Food'']"
    unfolding getTransactions_dated [OF f(2) h]
    by (simp add: c matches_def sampleDb_def sampleTx_def sampleClock_def stableSort_def
        byDateDesc_def)
  moreover have "getTransactions sampleEnv sampleDb ''guest_user'' ?after =
       [sampleTx ''t2'' ''guest_user'' 15 ''2024-01-03'' ''Transport'',
        sampleTx ''t4'' ''guest_user'' 25 ''2024-01-03'' ''Food'']"
    unfolding getTransactions_dated [OF f(3) h]
    by (simp add: c matches_def sampleDb_def sampleTx_def sampleClock_def stableSort_def
        byDateDesc_def)
  moreover have "latestFirst sampleClock (getTransactions sampleEnv sampleDb ''guest_user'' None)"
    using getTransactions_spec [of sampleEnv sampleDb "''guest_user''" None] h [of "effective None"] c
    by simp
  moreover have "getTransactions sampleEnv sampleDb ''nobody'' None = []"
    using getTransactions_spec [of sampleEnv sampleDb "''nobody''" None] n
    by blast
  moreover have "getTransactions sampleEnv sampleDb ''guest_user'' ?rent = []"
    using getTransactions_spec [of sampleEnv sampleDb "''guest_user''" ?rent] r
    by blast
  moreover have "?t5 \<in> set (getTransactions sampleEnv (snd (createTransaction stored sampleDb ?t5))
                             ''guest_user'' ?onBound)"
    using getTransactions_spec [of sampleEnv sampleDb "''guest_user''" ?onBound ?t5 stored] m
    by blast
  ultimately show ?thesis by simp
qed

text \<open>
  The claim as written fails in two ways. A filter whose category is the empty string is
  not applied: the query returns the user's three transactions, none of which has that
  category. And in a store whose second record has a date that is no date the comparator
  is not consistent; an engine that then leaves the array as it is (as V8 does on this
  array, where no comparison of neighbours asks for a move) returns the record of
  2024-01-01 before the record of 2024-01-03.
\<close>

theorem getTransactions_spec_counterexample:
  "map tx_id (getTransactions sampleEnv sampleDb ''guest_user''
                (Some \<lparr>f_category = Some [], f_startDate = None\<rparr>))
     = [''t2'', ''t4'', ''t1'']
   \<and> filter (matches sampleClock ''guest_user'' (Some \<lparr>f_category = Some [], f_startDate = None\<rparr>))
        (transactions sampleDb) = []
   \<and> map (\<lambda>t. (tx_id t, tx_date t)) (getTransactions sampleEnv mixedDb ''guest_user'' None)
     = [(''m1'', ''2024-01-01''), (''m2'', ''someday''), (''m3'', ''2024-01-03'')]
   \<and> sampleClock ''2024-01-01'' = Some 1704067200000
   \<and> sampleClock ''someday'' = None
   \<and> sampleClock ''2024-01-03'' = Some 1704240000000
   \<and> \<not> sorted_wrt (\<lambda>a b. \<forall>ta tb. sampleClock (tx_date a) = Some ta \<and> sampleClock (tx_date b) = Some tb
                                 \<longrightarrow> tb \<le> ta)
          (getTransactions sampleEnv mixedDb ''guest_user'' None)"
proof -
  let ?blank = "Some \<lparr>f_category = Some [], f_startDate = None\<rparr>"
  have g: "getTransactions sampleEnv sampleDb ''guest_user'' ?blank
           = getTransactions sampleEnv sampleDb ''guest_user'' None"
    by (simp add: getTransactions_def given_def)
  have h: "\<forall>t\<in>set (transactions sampleDb).
             matches (dateTime sampleEnv) ''guest_user'' None t \<longrightarrow> dateTime sampleEnv (tx_date t) \<noteq> None"
    by (simp add: sampleDb_def sampleTx_def sampleClock_def sampleEnv_def)
  have f: "nonEmptyFilters None"
    by (simp add: nonEmptyFilters_def)
  have a: "map tx_id (getTransactions sampleEnv sampleDb ''guest_user'' ?blank) = [''t2'', ''t4'', ''t1'']"
    unfolding g getTransactions_dated [OF f h]
    by (simp add: sampleEnv_def matches_def sampleDb_def sampleTx_def sampleClock_def
        stableSort_def byDateDesc_def)
  have b: "filter (matches sampleClock ''guest_user'' ?blank) (transactions sampleDb) = []"
    by (simp add: matches_def sampleDb_def sampleTx_def)
  let ?ms = "[sampleTx ''m1'' ''guest_user'' 10 ''2024-01-01'' ''Food'',
              sampleTx ''m2'' ''guest_user'' 20 ''someday'' ''Food'',
              sampleTx ''m3'' ''guest_user'' 30 ''2024-01-03'' ''Food'']"
  have "byDateDesc sampleClock (sampleTx ''m1'' ''guest_user'' 10 ''2024-01-01'' ''Food'')
          (sampleTx ''m2'' ''guest_user'' 20 ''someday'' ''Food'') = NaN"
    by (simp add: byDateDesc_def sampleClock_def sampleTx_def)
  then have "\<not> consistent (byDateDesc sampleClock) ?ms"
    by (simp add: consistent_def)
  then have m: "getTransactions sampleEnv mixedDb ''guest_user'' None = ?ms"
    by (simp add: getTransactions_def given_def mixedDb_def sort_js_def sampleEnv_def
        engineSort_keepOrder sampleTx_def)
  have c: "map (\<lambda>t. (tx_id t, tx_date t)) (getTransactions sampleEnv mixedDb ''guest_user'' None)
     = [(''m1'', ''2024-01-01''), (''m2'', ''someday''), (''m3'', ''2024-01-03'')]"
    unfolding m by (simp add: sampleTx_def)
  have d: "\<not> sorted_wrt (\<lambda>a b. \<forall>ta tb. sampleClock (tx_date a) = Some ta \<and> sampleClock (tx_date b) = Some tb
                                 \<longrightarrow> tb \<le> ta)
          (getTransactions sampleEnv mixedDb ''guest_user'' None)"
    unfolding m by (simp add: sampleTx_def sampleClock_def)
  have e: "sampleClock ''2024-01-01'' = Some 1704067200000 \<and> sampleClock ''someday'' = None
      \<and> sampleClock ''2024-01-03'' = Some 1704240000000"
    by (simp add: sampleClock_def)
  from a b c d e show ?thesis by simp
qed

section \<open>Deleting a transaction\<close>




section \<open>Creating a transaction\<close>

lemma orNum_zero: "orNum x 0 = (case x of None \<Rightarrow> 0 | Some a \<Rightarrow> a)"
  by (simp add: orNum_def split: option.splits)

lemma orStr_given: "s \<noteq> [] \<Longrightarrow> orStr (Some s) d = s"
  by (simp add: orStr_def)

lemma orStr_absent: "x = None \<or> x = Some [] \<Longrightarrow> orStr x d = d"
  by (auto simp add: orStr_def)

lemma orStr_nonempty: "d \<noteq> [] \<Longrightarrow> orStr x d \<noteq> []"
  by (simp add: orStr_def split: option.splits)

lemma create_with_session:
  assumes "getUser db currentUserId = Some user"
  shows "TransactionService_create W rid now db p =
     (case W (db\<lparr>transactions := transactions db @ [newTx rid now user p]\<rparr>) of
        None \<Rightarrow> \<lparr>data = Some (newTx rid now user p), error = None, status = 201\<rparr>
      | Some e \<Rightarrow> \<lparr>data = None, error = Some ''Creation failed'', status = 500\<rparr>,
      db\<lparr>transactions := transactions db @ [newTx rid now user p]\<rparr>)"
  using assms
  by (simp add: TransactionService_create_def getSession_def createTransaction_def Let_def
      creationFailed_def split: option.splits)

lemma create_without_session:
  assumes "getUser db currentUserId = None"
  shows "TransactionService_create W rid now db p =
     (\<lparr>data = None, error = Some ''Creation failed'', status = 500\<rparr>, db)"
  using assms
  by (simp add: TransactionService_create_def getSession_def creationFailed_def)

text \<open>
  Claim C1, as amended. \<open>createTransaction\<close> validates nothing: whatever the amount, the
  category and the date of its input, the record is appended, and it is returned when the
  write to the storage succeeds. The service-layer create validates nothing either. When
  the session user is missing, it answers status 500 with the error \<open>Creation failed\<close>
  and the store is unchanged. When the session user exists, exactly one record is
  appended, with the amount of the payload (0 when absent) and with the category and the
  date of the payload when these are non-empty strings, and the answer is status 201 with
  that record when the write succeeds. (When the write throws, the answer is status 500
  as well; the record is in the array by then.)
\<close>

theorem create_outcome:
  "snd (createTransaction W db tx) = db\<lparr>transactions := transactions db @ [tx]\<rparr>
   \<and> (W (db\<lparr>transactions := transactions db @ [tx]\<rparr>) = None
        \<longrightarrow> fst (createTransaction W db tx) = Inr tx)
   \<and> (getUser db currentUserId = None
        \<longrightarrow> TransactionService_create W rid now db p
            = (\<lparr>data = None, error = Some ''Creation failed'', status = 500\<rparr>, db))
   \<and> (\<forall>user. getUser db currentUserId = Some user
        \<longrightarrow> snd (TransactionService_create W rid now db p)
              = db\<lparr>transactions := transactions db @ [newTx rid now user p]\<rparr>
            \<and> tx_id (newTx rid now user p) = rid
            \<and> tx_userId (newTx rid now user p) = u_id user
            \<and> tx_amount (newTx rid now user p) = (case p_amount p of None \<Rightarrow> 0 | Some a \<Rightarrow> a)
            \<and> (\<forall>c. p_category p = Some c \<and> c \<noteq> [] \<longrightarrow> tx_category (newTx rid now user p) = c)
            \<and> (\<forall>d. p_date p = Some d \<and> d \<noteq> [] \<longrightarrow> tx_date (newTx rid now user p) = d)
            \<and> (W (db\<lparr>transactions := transactions db @ [newTx rid now user p]\<rparr>) = None
                 \<longrightarrow> fst (TransactionService_create W rid now db p)
                     = \<lparr>data = Some (newTx rid now user p), error = None, status = 201\<rparr>)
            \<and> (\<forall>e. W (db\<lparr>transactions := transactions db @ [newTx rid now user p]\<rparr>) = Some e
                 \<longrightarrow> fst (TransactionService_create W rid now db p)
                     = \<lparr>data = None, error = Some ''Creation failed'', status = 500\<rparr>))"
proof -
  have a: "snd (createTransaction W db tx) = db\<lparr>transactions := transactions db @ [tx]\<rparr>"
    by (simp add: createTransaction_def Let_def split: option.splits)
  have b: "W (db\<lparr>transactions := transactions db @ [tx]\<rparr>) = None
        \<longrightarrow> fst (createTransaction W db tx) = Inr tx"
    by (simp add: createTransaction_def Let_def)
  have c: "getUser db currentUserId = None
        \<longrightarrow> TransactionService_create W rid now db p
            = (\<lparr>data = None, error = Some ''Creation failed'', status = 500\<rparr>, db)"
    by (simp add: create_without_session)
  have d: "tx_id (newTx rid now user p) = rid
            \<and> tx_userId (newTx rid now user p) = u_id user
            \<and> tx_amount (newTx rid now user p) = (case p_amount p of None \<Rightarrow> 0 | Some a \<Rightarrow> a)
            \<and> (\<forall>c. p_category p = Some c \<and> c \<noteq> [] \<longrightarrow> tx_category (newTx rid now user p) = c)
            \<and> (\<forall>d. p_date p = Some d \<and> d \<noteq> [] \<longrightarrow> tx_date (newTx rid now user p) = d)" for user
    by (simp add: newTx_def orNum_zero orStr_given)
  have e: "snd (TransactionService_create W rid now db p)
              = db\<lparr>transactions := transactions db @ [newTx rid now user p]\<rparr>
            \<and> (W (db\<lparr>transactions := transactions db @ [newTx rid now user p]\<rparr>) = None
                 \<longrightarrow> fst (TransactionService_create W rid now db p)
                     = \<lparr>data = Some (newTx rid now user p), error = None, status = 201\<rparr>)
            \<and> (\<forall>e. W (db\<lparr>transactions := transactions db @ [newTx rid now user p]\<rparr>) = Some e
                 \<longrightarrow> fst (TransactionService_create W rid now db p)
                     = \<lparr>data = None, error = Some ''Creation failed'', status = 500\<rparr>)"
    if "getUser db currentUserId = Some user" for user
    by (simp add: create_with_session [OF that])
  from a b c d e show ?thesis by blast
qed

theorem create_outcome_witness:
  "TransactionService_create stored ''n1'' ''2024-01-02T10:00:00.000Z'' noUserDb badPayload
     = (\<lparr>data = None, error = Some ''Creation failed'', status = 500\<rparr>, noUserDb)
   \<and> status (fst (TransactionService_create stored ''n1'' ''2024-01-02T10:00:00.000Z'' emptyDb badPayload))
     = 201
   \<and> map (\<lambda>t. (tx_id t, tx_amount t, tx_category t, tx_date t))
        (transactions (snd (TransactionService_create stored ''n1'' ''2024-01-02T10:00:00.000Z''
                              emptyDb badPayload)))
     = [(''n1'', - 5, ''Dining'', ''someday'')]
   \<and> status (fst (TransactionService_create storageFull ''n1'' ''2024-01-02T10:00:00.000Z''
                     emptyDb badPayload))
     = 500
   \<and> map tx_id
        (transactions (snd (TransactionService_create storageFull ''n1'' ''2024-01-02T10:00:00.000Z''
                              emptyDb badPayload)))
     = [''n1'']"
proof -
  let ?now = "''2024-01-02T10:00:00.000Z''"
  let ?tx = "newTx ''n1'' ?now guest badPayload"
  have n: "getUser noUserDb currentUserId = None"
    by (simp add: getUser_def noUserDb_def guest_def currentUserId_def)
  have g: "getUser emptyDb currentUserId = Some guest"
    by (simp add: getUser_def emptyDb_def guest_def currentUserId_def)
  have w: "stored (emptyDb\<lparr>transactions := transactions emptyDb @ [?tx]\<rparr>) = None"
    by (simp add: stored_def)
  have f: "storageFull (emptyDb\<lparr>transactions := transactions emptyDb @ [?tx]\<rparr>)
             = Some (Error ''QuotaExceededError'')"
    by (simp add: storageFull_def)
  have p: "p_amount badPayload = Some (- 5)" "p_category badPayload = Some ''Dining''"
    "p_date badPayload = Some ''someday''"
    by (simp_all add: badPayload_def)
  note s = create_outcome [of stored emptyDb _ "''n1''" ?now badPayload]
  note q = create_outcome [of storageFull emptyDb _ "''n1''" ?now badPayload]
  have 1: "TransactionService_create stored ''n1'' ?now noUserDb badPayload
     = (\<lparr>data = None, error = Some ''Creation failed'', status = 500\<rparr>, noUserDb)"
    using create_outcome [of stored noUserDb _ "''n1''" ?now badPayload] n by blast
  have s': "snd (TransactionService_create stored ''n1'' ?now emptyDb badPayload)
              = emptyDb\<lparr>transactions := transactions emptyDb @ [?tx]\<rparr>"
    "tx_id ?tx = ''n1''" "tx_amount ?tx = - 5" "tx_category ?tx = ''Dining''"
    "tx_date ?tx = ''someday''"
    "fst (TransactionService_create stored ''n1'' ?now emptyDb badPayload)
       = \<lparr>data = Some ?tx, error = None, status = 201\<rparr>"
    using s g w p by simp_all
  have q': "snd (TransactionService_create storageFull ''n1'' ?now emptyDb badPayload)
              = emptyDb\<lparr>transactions := transactions emptyDb @ [?tx]\<rparr>"
    "fst (TransactionService_create storageFull ''n1'' ?now emptyDb badPayload)
       = \<lparr>data = None, error = Some ''Creation failed'', status = 500\<rparr>"
    using q g f by simp_all
  have t: "transactions emptyDb = []"
    by (simp add: emptyDb_def)
  from 1 s' q' t show ?thesis by simp
qed

text \<open>
  The claim as written fails: a payload with amount \<open>- 5\<close>, category \<open>Dining\<close> and date
  \<open>someday\<close> is stored and answered with status 201, and the store method appends and
  returns a record with a negative amount.
\<close>

theorem create_outcome_counterexample:
  "p_amount badPayload = Some (- 5)
   \<and> sampleClock ''someday'' = None
   \<and> ''Dining'' \<notin> set enumeration
   \<and> status (fst (TransactionService_create stored ''n1'' ''2024-01-02'' emptyDb badPayload)) = 201
   \<and> error (fst (TransactionService_create stored ''n1'' ''2024-01-02'' emptyDb badPayload)) = None
   \<and> map (\<lambda>t. (tx_amount t, tx_category t, tx_date t))
        (transactions (snd (TransactionService_create stored ''n1'' ''2024-01-02'' emptyDb badPayload)))
      = [(- 5, ''Dining'', ''someday'')]
   \<and> transactions emptyDb = []
   \<and> tx_amount (sampleTx ''n2'' ''guest_user'' (- 5) ''someday'' ''Dining'') < 0
   \<and> createTransaction stored emptyDb (sampleTx ''n2'' ''guest_user'' (- 5) ''someday'' ''Dining'')
      = (Inr (sampleTx ''n2'' ''guest_user'' (- 5) ''someday'' ''Dining''),
         emptyDb\<lparr>transactions := [sampleTx ''n2'' ''guest_user'' (- 5) ''someday'' ''Dining'']\<rparr>)"
  by (simp add: badPayload_def emptyPayload_def sampleClock_def enumeration_def
      TransactionService_create_def getSession_def getUser_def currentUserId_def emptyDb_def
      guest_def createTransaction_def newTx_def orNum_def orStr_def sampleTx_def stored_def)

text \<open>
  Claim C2, as amended. Without a session user the service-layer create stores nothing.
  With one it stores exactly one record, whose category and date are never empty: the
  category is the payload's when that is a non-empty string and \<open>Uncategorized\<close> when it
  is absent or empty; the date is the payload's when that is a non-empty string and the
  clock's ISO string (itself never empty) when it is absent or empty. Neither is checked
  against the enumeration or parsed.
\<close>

theorem create_category_date:
  assumes "TransactionService_create W rid now db p = (r, db')"
    and "now \<noteq> []"
  shows "(getUser db currentUserId = None \<longrightarrow> db' = db)
       \<and> (getUser db currentUserId \<noteq> None \<longrightarrow>
            (\<exists>tx. transactions db' = transactions db @ [tx]
               \<and> (status r = 201 \<longrightarrow> data r = Some tx)
               \<and> tx_category tx \<noteq> [] \<and> tx_date tx \<noteq> []
               \<and> (\<forall>c. p_category p = Some c \<and> c \<noteq> [] \<longrightarrow> tx_category tx = c)
               \<and> (p_category p = None \<or> p_category p = Some [] \<longrightarrow> tx_category tx = ''Uncategorized'')
               \<and> (\<forall>d. p_date p = Some d \<and> d \<noteq> [] \<longrightarrow> tx_date tx = d)
               \<and> (p_date p = None \<or> p_date p = Some [] \<longrightarrow> tx_date tx = now)))"
proof (cases "getUser db currentUserId")
  case None
  with assms(1) show ?thesis
    by (simp add: create_without_session)
next
  case (Some user)
  let ?tx = "newTx rid now user p"
  from Some assms(1) have "transactions db' = transactions db @ [?tx]"
    and "status r = 201 \<longrightarrow> data r = Some ?tx"
    by (auto simp add: create_with_session split: option.splits)
  moreover have "tx_category ?tx \<noteq> []"
    by (simp add: newTx_def orStr_nonempty)
  moreover have "tx_date ?tx \<noteq> []"
    using assms(2) by (simp add: newTx_def orStr_nonempty)
  moreover have "\<forall>c. p_category p = Some c \<and> c \<noteq> [] \<longrightarrow> tx_category ?tx = c"
    by (simp add: newTx_def orStr_given)
  moreover have "p_category p = None \<or> p_category p = Some [] \<longrightarrow> tx_category ?tx = ''Uncategorized''"
    by (simp add: newTx_def orStr_absent)
  moreover have "\<forall>d. p_date p = Some d \<and> d \<noteq> [] \<longrightarrow> tx_date ?tx = d"
    by (simp add: newTx_def orStr_given)
  moreover have "p_date p = None \<or> p_date p = Some [] \<longrightarrow> tx_date ?tx = now"
    by (simp add: newTx_def orStr_absent)
  ultimately have "\<exists>tx. transactions db' = transactions db @ [tx]
               \<and> (status r = 201 \<longrightarrow> data r = Some tx)
               \<and> tx_category tx \<noteq> [] \<and> tx_date tx \<noteq> []
               \<and> (\<forall>c. p_category p = Some c \<and> c \<noteq> [] \<longrightarrow> tx_category tx = c)
               \<and> (p_category p = None \<or> p_category p = Some [] \<longrightarrow> tx_category tx = ''Uncategorized'')
               \<and> (\<forall>d. p_date p = Some d \<and> d \<noteq> [] \<longrightarrow> tx_date tx = d)
               \<and> (p_date p = None \<or> p_date p = Some [] \<longrightarrow> tx_date tx = now)"
    by (intro exI [of _ ?tx] conjI)
  with Some show ?thesis by simp
qed

text \<open>
  The claim as written fails: the category \<open>Dining\<close>, outside the enumeration, and
  the unparseable date \<open>someday\<close> are persisted as they are.
\<close>

theorem create_category_date_counterexample:
  "p_category badPayload = Some ''Dining''
   \<and> ''Dining'' \<notin> set enumeration
   \<and> status (fst (TransactionService_create stored ''n1'' ''2024-01-02'' emptyDb badPayload)) = 201
   \<and> map tx_category
        (transactions (snd (TransactionService_create stored ''n1'' ''2024-01-02'' emptyDb badPayload)))
      = [''Dining'']
   \<and> map tx_date
        (transactions (snd (TransactionService_create stored ''n1'' ''2024-01-02'' emptyDb badPayload)))
      = [''someday'']
   \<and> sampleClock ''someday'' = None"
  by (simp add: badPayload_def emptyPayload_def sampleClock_def enumeration_def
      TransactionService_create_def getSession_def getUser_def currentUserId_def emptyDb_def
      guest_def createTransaction_def newTx_def orNum_def orStr_def stored_def)

theorem create_category_date_witness:
  "(\<exists>tx. transactions (snd (TransactionService_create stored ''n1'' ''2024-01-02T10:00:00.000Z''
                              emptyDb badPayload)) = [tx]
        \<and> tx_category tx = ''Dining'' \<and> tx_date tx = ''someday'')
   \<and> (\<exists>tx. transactions (snd (TransactionService_create stored ''n1'' ''2024-01-02T10:00:00.000Z''
                              emptyDb emptyPayload)) = [tx]
        \<and> tx_category tx = ''Uncategorized'' \<and> tx_date tx = ''2024-01-02T10:00:00.000Z'')
   \<and> snd (TransactionService_create stored ''n1'' ''2024-01-02T10:00:00.000Z'' noUserDb badPayload)
       = noUserDb"
proof -
  let ?now = "''2024-01-02T10:00:00.000Z''"
  have now: "?now \<noteq> []" by simp
  have g: "getUser emptyDb currentUserId \<noteq> None"
    by (simp add: getUser_def emptyDb_def guest_def currentUserId_def)
  have n: "getUser noUserDb currentUserId = None"
    by (simp add: getUser_def noUserDb_def guest_def currentUserId_def)
  have t: "transactions emptyDb = []"
    by (simp add: emptyDb_def)
  have p: "p_category badPayload = Some ''Dining''" "p_date badPayload = Some ''someday''"
    "p_category emptyPayload = None" "p_date emptyPayload = None"
    by (simp_all add: badPayload_def emptyPayload_def)
  have 1: "\<exists>tx. transactions (snd (TransactionService_create stored ''n1'' ?now emptyDb badPayload)) = [tx]
        \<and> tx_category tx = ''Dining'' \<and> tx_date tx = ''someday''"
    using create_category_date
        [OF surjective_pairing [of "TransactionService_create stored ''n1'' ?now emptyDb badPayload"] now]
      g t p by auto
  have 2: "\<exists>tx. transactions (snd (TransactionService_create stored ''n1'' ?now emptyDb emptyPayload)) = [tx]
        \<and> tx_category tx = ''Uncategorized'' \<and> tx_date tx = ?now"
    using create_category_date
        [OF surjective_pairing [of "TransactionService_create stored ''n1'' ?now emptyDb emptyPayload"] now]
      g t p by auto
  have 3: "snd (TransactionService_create stored ''n1'' ?now noUserDb badPayload) = noUserDb"
    using create_category_date
        [OF surjective_pairing [of "TransactionService_create stored ''n1'' ?now noUserDb badPayload"] now]
      n by simp
  from 1 2 3 show ?thesis by simp
qed

section \<open>Budgets\<close>

lemma foldl_plus: "foldl (\<lambda>sum t. sum + f t) a xs = a + sum_list (map f xs)"
  for a :: real
  by (induction xs arbitrary: a) simp_all

lemma spentOn_sum:
  "spentOn txs cat = sum_list (map tx_amount (filter (\<lambda>t. tx_category t = cat) txs))"
  by (simp add: spentOn_def foldl_plus)

lemma sum_list_perm:
  "mset xs = mset ys \<Longrightarrow> sum_list (map f (filter q xs)) = sum_list (map f (filter q ys))"
  for f :: "'a \<Rightarrow> real"
proof -
  assume "mset xs = mset ys"
  then have "mset (map f (filter q xs)) = mset (map f (filter q ys))"
    by (metis mset_filter mset_map)
  then show ?thesis
    by (metis sum_mset_sum_list)
qed

lemma owned_transactions:
  "mset (getTransactions env db userId None) = mset (filter (\<lambda>t. tx_userId t = userId) (transactions db))"
  by (simp add: getTransactions_def given_def mset_sort_js)

lemma getBudgets_spent:
  "getBudgets env db userId =
     map (\<lambda>b. b\<lparr>b_spent := sum_list (map tx_amount
                   (filter (\<lambda>t. tx_userId t = userId \<and> tx_category t = b_category b) (transactions db)))\<rparr>)
       (filter (\<lambda>b. b_userId b = userId) (budgets db))"
proof -
  have "spentOn (getTransactions env db userId None) c =
      sum_list (map tx_amount (filter (\<lambda>t. tx_userId t = userId \<and> tx_category t = c) (transactions db)))" for c
    using sum_list_perm [OF owned_transactions, of tx_amount "\<lambda>t. tx_category t = c" env db userId]
    by (simp add: spentOn_sum)
  then show ?thesis
    by (simp add: getBudgets_def)
qed

text \<open>
  Claim C3, at the input where the code departs from it. The guest user has no stored
  budget and one Food transaction of 40. The budget read path answers with the default
  set, whose Food budget reports \<open>spent = 0\<close>, while the user's Food transactions sum
  to 40. (For stored budgets \<open>getBudgets_spent\<close> above shows the sum that the claim
  states.)
\<close>

theorem default_budgets_spent:
  "budgets foodDb = []
   \<and> filter (\<lambda>t. tx_userId t = currentUserId \<and> tx_category t = ''Food'') (transactions foodDb)
       = [sampleTx ''t1'' ''guest_user'' 40 ''2024-01-01'' ''Food'']
   \<and> sum_list (map tx_amount
        (filter (\<lambda>t. tx_userId t = currentUserId \<and> tx_category t = ''Food'') (transactions foodDb))) = 40
   \<and> map_option (map (\<lambda>b. (b_category b, b_spent b))) (data (BudgetService_getAll env foodDb))
       = Some [(''Food'', 0), (''Transport'', 0), (''Entertainment'', 0)]"
  by (simp add: foodDb_def createTransaction_def stored_def emptyDb_def sampleTx_def
      currentUserId_def BudgetService_getAll_def getBudgets_def defaultBudgets_def)

section \<open>Analytics\<close>

lemma overflow_large: "2 ^ 1000 \<le> overflow"
  by (simp add: overflow_def)

lemma toNumber_small: "\<bar>x\<bar> < 2 ^ 1000 \<Longrightarrow> toNumber x = Fin x"
  using overflow_large by (auto simp add: toNumber_def)

lemma guest_transactions_single:
  assumes "transactions db = [t]" and "tx_userId t = currentUserId"
  shows "getTransactions env db currentUserId None = [t]"
proof -
  have "mset (getTransactions env db currentUserId None) = {#t#}"
    using assms by (simp add: owned_transactions)
  then show ?thesis
    by simp
qed

lemma sort_js_Nil: "sort_js E c [] = []"
  using mset_sort_js [of E c "[]"] by simp

lemma sort_js_single: "sort_js E c [x] = [x]"
  using mset_sort_js [of E c "[x]"] by simp

lemma sumAmounts_single: "\<bar>a\<bar> < 2 ^ 1000 \<Longrightarrow> sumAmounts [t\<lparr>tx_amount := a\<rparr>] = Fin a"
  by (simp add: sumAmounts_def toNumber_small)

lemma categoryMap_proto:
  "categoryMap [sampleTx i u a d ''__proto__''] = []"
  by (simp add: categoryMap_def accumulate_def assign_def sampleTx_def)

lemma categoryMap_constructor:
  "categoryMap [sampleTx i u a d ''constructor''] = [(''constructor'', Str)]"
  by (simp add: categoryMap_def accumulate_def assign_def lookup_def plusAmount_def
      inheritedNames_def sampleTx_def)

lemma categoryMap_food:
  "\<bar>a\<bar> < 2 ^ 1000 \<Longrightarrow> categoryMap [sampleTx i u a d ''Food''] = [(''Food'', Num (Fin a))]"
  by (simp add: categoryMap_def accumulate_def assign_def lookup_def plusAmount_def
      inheritedNames_def sampleTx_def toNumber_small)

text \<open>
  Claim C9, at inputs where the code departs from it. The guest user's only transaction
  has the amount 40. When its category is \<open>__proto__\<close>, the total is 40 and the list of
  categories is empty: no row carries the sum of the category and the percentages add up
  to 0. When its category is \<open>constructor\<close>, the one row has a string for its amount and
  \<^verbatim>\<open>NaN\<close> for its percentage. For the category \<open>Food\<close> the same store gives the row that
  the claim states: amount 40 and 100 percent.
\<close>

theorem topCategories_inherited_names:
  "map (\<lambda>t. (tx_category t, tx_amount t)) (transactions protoDb) = [(''__proto__'', 40)]
   \<and> map_option (\<lambda>s. (totalSpent s, topCategories s)) (data (getDashboardSummary env protoDb))
       = Some (Fin 40, [])
   \<and> map (\<lambda>t. (tx_category t, tx_amount t)) (transactions constructorDb) = [(''constructor'', 40)]
   \<and> map_option (\<lambda>s. (totalSpent s, topCategories s)) (data (getDashboardSummary env constructorDb))
       = Some (Fin 40, [\<lparr>cs_category = ''constructor'', cs_amount = Str, cs_percentage = NaN\<rparr>])
   \<and> map (\<lambda>t. (tx_category t, tx_amount t)) (transactions foodDb) = [(''Food'', 40)]
   \<and> map_option (\<lambda>s. (totalSpent s, topCategories s)) (data (getDashboardSummary env foodDb))
       = Some (Fin 40, [\<lparr>cs_category = ''Food'', cs_amount = Num (Fin 40), cs_percentage = Fin 100\<rparr>])"
proof -
  let ?p = "sampleTx ''p1'' ''guest_user'' 40 ''2024-01-01'' ''__proto__''"
  let ?c = "sampleTx ''c1'' ''guest_user'' 40 ''2024-01-01'' ''constructor''"
  let ?f = "sampleTx ''t1'' ''guest_user'' 40 ''2024-01-01'' ''Food''"
  have small: "\<bar>40::real\<bar> < 2 ^ 1000"
    by simp
  have total: "sumAmounts [sampleTx i u 40 d c] = Fin 40" for i u d c
    using sumAmounts_single [OF small, of "sampleTx i u 40 d c"] by (simp add: sampleTx_def)
  have tp: "getTransactions env protoDb currentUserId None = [?p]"
    by (rule guest_transactions_single) (simp_all add: protoDb_def sampleTx_def currentUserId_def)
  have tc: "getTransactions env constructorDb currentUserId None = [?c]"
    by (rule guest_transactions_single)
      (simp_all add: constructorDb_def sampleTx_def currentUserId_def)
  have tf: "getTransactions env foodDb currentUserId None = [?f]"
    by (rule guest_transactions_single)
      (simp_all add: foodDb_def createTransaction_def stored_def emptyDb_def sampleTx_def
        currentUserId_def)
  have 1: "map_option (\<lambda>s. (totalSpent s, topCategories s)) (data (getDashboardSummary env protoDb))
       = Some (Fin 40, [])"
    by (simp add: getDashboardSummary_def tp total topCategoriesOf_def categoryMap_proto
        entries_def List.map_filter_simps sort_js_Nil)
  have hundred: "toNumber 1 = Fin 1" "toNumber 100 = Fin 100"
    by (rule toNumber_small, simp)+
  have 2: "map_option (\<lambda>s. (totalSpent s, topCategories s))
             (data (getDashboardSummary env constructorDb))
       = Some (Fin 40, [\<lparr>cs_category = ''constructor'', cs_amount = Str, cs_percentage = NaN\<rparr>])"
    by (simp add: getDashboardSummary_def tc total topCategoriesOf_def categoryMap_constructor
        entries_def List.map_filter_simps arrayIndex_def digitOf_def sort_js_single
        toSpending_def positive_js_def cellNumber_def)
  have 3: "map_option (\<lambda>s. (totalSpent s, topCategories s)) (data (getDashboardSummary env foodDb))
       = Some (Fin 40, [\<lparr>cs_category = ''Food'', cs_amount = Num (Fin 40), cs_percentage = Fin 100\<rparr>])"
    by (simp add: getDashboardSummary_def tf total topCategoriesOf_def categoryMap_food [OF small]
        entries_def List.map_filter_simps arrayIndex_def digitOf_def sort_js_single
        toSpending_def positive_js_def cellNumber_def hundred)
  have 0: "map (\<lambda>t. (tx_category t, tx_amount t)) (transactions protoDb) = [(''__proto__'', 40)]"
    "map (\<lambda>t. (tx_category t, tx_amount t)) (transactions constructorDb) = [(''constructor'', 40)]"
    "map (\<lambda>t. (tx_category t, tx_amount t)) (transactions foodDb) = [(''Food'', 40)]"
    by (simp_all add: protoDb_def constructorDb_def foodDb_def createTransaction_def stored_def
        emptyDb_def sampleTx_def)
  from 0 1 2 3 show ?thesis by simp
qed

text \<open>
  Two more places where a plain dictionary and exact sums would differ from the code: the
  order of \<^verbatim>\<open>Object.entries\<close> for names that are array indices, and a sum that leaves
  the range of doubles.
\<close>

lemma entries_indices_first:
  "map fst (entries [(''Food'', x), (''10'', y), (''9'', z), (''007'', w)])
     = [''9'', ''10'', ''Food'', ''007'']"
  by (simp add: entries_def List.map_filter_simps arrayIndex_def digitOf_def)

lemma sumAmounts_overflow:
  "sumAmounts [sampleTx ''a'' u (10 ^ 308) d c, sampleTx ''b'' u (10 ^ 308) d c] = PosInf"
  by (simp add: sumAmounts_def sampleTx_def toNumber_def overflow_def)

section \<open>Extraction and coach calls\<close>

text \<open>
  Claim C5. When the remote call was transported and the response text is absent, empty
  or not valid JSON, the text-parse call and the image-parse call return the empty partial
  record; nothing is thrown, and the two service endpoints answer with status 200 and the
  empty record.
\<close>

theorem malformed_response_empty:
  assumes "r_text response = None \<or> r_text response = Some []
           \<or> (\<exists>s. r_text response = Some s \<and> JSON_parse J s = None)"
  shows "(remote (parseTransactionRequest input) = Inr response
            \<longrightarrow> (\<exists>raw. parseTransactionWithAI J remote input
                         = Inr \<lparr>transaction = JObject emptyPayload, rawResponse = raw\<rparr>)
                \<and> parseNaturalLanguage J remote input
                     = Inr \<lparr>data = Some (JObject emptyPayload), error = None, status = 200\<rparr>)
       \<and> (remote (scanReceiptRequest base64Image mimeType) = Inr response
            \<longrightarrow> scanReceiptWithAI J remote base64Image mimeType = Inr (JObject emptyPayload)
                \<and> uploadReceipt J remote base64Image mimeType
                     = Inr \<lparr>data = Some (JObject emptyPayload), error = None, status = 200\<rparr>)"
proof -
  have e: "JSON_parse J ''{}'' = Some (JObject emptyPayload)"
    by (simp add: JSON_parse_def)
  from assms have "(case JSON_parse J (orStr (r_text response) ''{}'') of
                      Some v \<Rightarrow> v | None \<Rightarrow> JObject emptyPayload) = JObject emptyPayload"
    using e by (auto simp add: orStr_def split: option.splits)
  moreover from assms have "(case JSON_parse J (orStr (r_text response) ''{}'') of
                      Some v \<Rightarrow> Inr v | None \<Rightarrow> Inr (JObject emptyPayload))
                   = (Inr (JObject emptyPayload) :: Exn + Json)"
    using e by (auto simp add: orStr_def split: option.splits)
  ultimately show ?thesis
    by (simp add: parseTransactionWithAI_def scanReceiptWithAI_def parseNaturalLanguage_def
        uploadReceipt_def Let_def)
qed

theorem malformed_response_empty_witness:
  "parseTransactionWithAI rejecting (answering (Some ''<html>'')) ''Dinner 40 yesterday''
     = Inr \<lparr>transaction = JObject emptyPayload, rawResponse = ''<html>''\<rparr>
   \<and> scanReceiptWithAI rejecting (answering (Some ''<html>'')) ''aGVsbG8='' ''image/png''
     = Inr (JObject emptyPayload)
   \<and> parseTransactionWithAI rejecting (answering None) ''Dinner 40 yesterday''
     = Inr \<lparr>transaction = JObject emptyPayload, rawResponse = ''{}''\<rparr>
   \<and> scanReceiptWithAI rejecting (answering (Some [])) ''aGVsbG8='' ''image/png''
     = Inr (JObject emptyPayload)"
proof -
  have a: "r_text \<lparr>r_text = Some ''<html>''\<rparr> = None \<or> r_text \<lparr>r_text = Some ''<html>''\<rparr> = Some []
           \<or> (\<exists>s. r_text \<lparr>r_text = Some ''<html>''\<rparr> = Some s \<and> JSON_parse rejecting s = None)"
    by (simp add: JSON_parse_def rejecting_def)
  have b: "r_text \<lparr>r_text = Some []\<rparr> = None \<or> r_text \<lparr>r_text = Some []\<rparr> = Some []
           \<or> (\<exists>s. r_text \<lparr>r_text = Some []\<rparr> = Some s \<and> JSON_parse rejecting s = None)"
    by simp
  have "scanReceiptWithAI rejecting (answering (Some ''<html>'')) ''aGVsbG8='' ''image/png''
     = Inr (JObject emptyPayload)"
    using malformed_response_empty [OF a, of "answering (Some ''<html>'')"]
    by (simp add: answering_def)
  moreover have "scanReceiptWithAI rejecting (answering (Some [])) ''aGVsbG8='' ''image/png''
     = Inr (JObject emptyPayload)"
    using malformed_response_empty [OF b, of "answering (Some [])"]
    by (simp add: answering_def)
  moreover have "parseTransactionWithAI rejecting (answering (Some ''<html>'')) ''Dinner 40 yesterday''
     = Inr \<lparr>transaction = JObject emptyPayload, rawResponse = ''<html>''\<rparr>"
    by (simp add: parseTransactionWithAI_def answering_def orStr_def JSON_parse_def rejecting_def)
  moreover have "parseTransactionWithAI rejecting (answering None) ''Dinner 40 yesterday''
     = Inr \<lparr>transaction = JObject emptyPayload, rawResponse = ''{}''\<rparr>"
    by (simp add: parseTransactionWithAI_def answering_def orStr_def JSON_parse_def)
  ultimately show ?thesis by simp
qed

text \<open>
  Claim C6, as amended. The coach call returns the text of the response, or the fixed
  fallback string when the response has no text or an empty one. When the remote call
  itself fails, the failure is passed on to the caller. The request is built from the
  first 50 transactions of the history.
\<close>

theorem coach_outcome:
  "(\<forall>e. remote (coachRequest stringify history query) = Inl e
        \<longrightarrow> askFinancialCoach stringify remote history query = Inl e)
   \<and> (\<forall>response. remote (coachRequest stringify history query) = Inr response
        \<longrightarrow> (r_text response = None \<or> r_text response = Some []
               \<longrightarrow> askFinancialCoach stringify remote history query = Inr fallback)
            \<and> (\<forall>t. r_text response = Some t \<and> t \<noteq> []
               \<longrightarrow> askFinancialCoach stringify remote history query = Inr t))
   \<and> coachRequest stringify history query = coachRequest stringify (take 50 history) query"
  by (auto simp add: askFinancialCoach_def orStr_def fallback_def coachRequest_def)

text \<open>The claim as written fails: a failing remote call makes the coach call fail.\<close>

theorem coach_outcome_counterexample:
  "askFinancialCoach (\<lambda>h. ''[]'') failing [] ''Why am I broke?'' = Inl (Error ''fetch failed'')"
  by (simp add: askFinancialCoach_def failing_def)

theorem coach_outcome_witness:
  "askFinancialCoach (\<lambda>h. ''[]'') failing [] ''Why am I broke?'' = Inl (Error ''fetch failed'')
   \<and> askFinancialCoach (\<lambda>h. ''[]'') (answering None) [] ''Why am I broke?'' = Inr fallback
   \<and> askFinancialCoach (\<lambda>h. ''[]'') (answering (Some ''Spend less.'')) [] ''Why am I broke?''
       = Inr ''Spend less.''"
proof -
  let ?rq = "coachRequest (\<lambda>h. ''[]'') [] ''Why am I broke?''"
  have f: "failing ?rq = Inl (Error ''fetch failed'')"
    by (simp add: failing_def)
  have n: "answering None ?rq = Inr \<lparr>r_text = None\<rparr>"
    by (simp add: answering_def)
  have t: "answering (Some ''Spend less.'') ?rq = Inr \<lparr>r_text = Some ''Spend less.''\<rparr>"
    by (simp add: answering_def)
  have "askFinancialCoach (\<lambda>h. ''[]'') failing [] ''Why am I broke?'' = Inl (Error ''fetch failed'')"
    using coach_outcome [of failing "\<lambda>h. ''[]''" "[]" "''Why am I broke?''", THEN conjunct1] f
    by blast
  moreover have "askFinancialCoach (\<lambda>h. ''[]'') (answering None) [] ''Why am I broke?'' = Inr fallback"
    using coach_outcome [of "answering None" "\<lambda>h. ''[]''" "[]" "''Why am I broke?''",
        THEN conjunct2, THEN conjunct1] n
    by (metis GenResponse.select_convs(1))
  moreover have "askFinancialCoach (\<lambda>h. ''[]'') (answering (Some ''Spend less.'')) [] ''Why am I broke?''
       = Inr ''Spend less.''"
    using coach_outcome [of "answering (Some ''Spend less.'')" "\<lambda>h. ''[]''" "[]" "''Why am I broke?''",
        THEN conjunct2, THEN conjunct1, rule_format, OF t, THEN conjunct2, rule_format,
        of "''Spend less.''"]
    by simp
  ultimately show ?thesis by simp
qed

text \<open>
  Claim C8, as amended. The schema sent by the image-parse call has the five properties
  amount, currency, merchant, category and date, of which amount, currency, merchant and
  date are required; category is optional.
\<close>

theorem receipt_schema:
  "map_option (\<lambda>s. (map fst (properties s), required s))
     (responseSchema (scanReceiptRequest base64Image mimeType))
   = Some ([''amount'', ''currency'', ''merchant'', ''category'', ''date''],
           [''amount'', ''currency'', ''merchant'', ''date''])"
  by (simp add: scanReceiptRequest_def)

text \<open>The claim as written fails: category is not among the required fields.\<close>

theorem receipt_schema_counterexample:
  "map_option required (responseSchema (scanReceiptRequest ''aGVsbG8='' ''image/png''))
     = Some [''amount'', ''currency'', ''merchant'', ''date'']
   \<and> ''category'' \<notin> set [''amount'', ''currency'', ''merchant'', ''date'']"
  by (simp add: scanReceiptRequest_def)

section \<open>The debounced parsing effect\<close>

lemma parseNaturalLanguage_settled:
  "parseNaturalLanguage J (\<lambda>request. Inr response) input
     = Inr \<lparr>data = Some (extracted J response), error = None, status = 200\<rparr>"
  by (simp add: parseNaturalLanguage_def parseTransactionWithAI_def extracted_def Let_def)

lemma parseNaturalLanguage_rejected:
  "parseNaturalLanguage J (\<lambda>request. Inl e) input = Inl e"
  by (simp add: parseNaturalLanguage_def parseTransactionWithAI_def)

text \<open>
  Claim C7, as amended. The effect has no staleness check. Whenever an awaited text-parse
  call completes with a response, what was extracted from it becomes the preview if it is
  truthy (every object is, also the empty record), whatever the magic input is by then;
  a falsy value (such as \<^verbatim>\<open>null\<close>) and a failed call leave the preview as it was.
  Editing the input changes neither the preview nor the calls that are awaited; it
  replaces the pending timer exactly when the input changed, is longer than 8 characters
  and no preview is active. The firing of the timer does not change the preview.
\<close>

theorem result_always_accepted:
  "(i < length (awaiting app) \<longrightarrow>
      (truthy (extracted J response)
         \<longrightarrow> aiPreview (step J app (Settled i (Inr response))) = Some (extracted J response))
      \<and> (\<not> truthy (extracted J response)
         \<longrightarrow> aiPreview (step J app (Settled i (Inr response))) = aiPreview app)
      \<and> magicInput (step J app (Settled i (Inr response))) = magicInput app
      \<and> aiPreview (step J app (Settled i (Inl e))) = aiPreview app)
   \<and> aiPreview (step J app (SetMagicInput s)) = aiPreview app
   \<and> awaiting (step J app (SetMagicInput s)) = awaiting app
   \<and> timer (step J app (SetMagicInput s))
       = (if s \<noteq> magicInput app \<and> 8 < length s \<and> noPreview app then Some s else timer app)
   \<and> aiPreview (step J app TimerFired) = aiPreview app"
  by (simp add: parseNaturalLanguage_settled parseNaturalLanguage_rejected Let_def
      split: option.splits)

text \<open>
  The claim as written fails: a call is issued for \<open>Dinner 40 yesterday\<close>, the input
  changes to \<open>Lunch 12 today\<close> while the call is awaited, and the result of the call
  becomes the preview all the same.
\<close>

theorem result_always_accepted_counterexample:
  \<open>awaiting (run sampleJson initialApp
       [SetMagicInput ''Dinner 40 yesterday'', TimerFired, SetMagicInput ''Lunch 12 today''])
     = [''Dinner 40 yesterday'']
   \<and> magicInput (run sampleJson initialApp
       [SetMagicInput ''Dinner 40 yesterday'', TimerFired, SetMagicInput ''Lunch 12 today''])
     = ''Lunch 12 today''
   \<and> aiPreview (run sampleJson initialApp
       [SetMagicInput ''Dinner 40 yesterday'', TimerFired, SetMagicInput ''Lunch 12 today''])
     = None
   \<and> magicInput (run sampleJson initialApp
       [SetMagicInput ''Dinner 40 yesterday'', TimerFired, SetMagicInput ''Lunch 12 today'',
        Settled 0 (Inr \<lparr>r_text = Some ''{"amount":40}''\<rparr>)])
     = ''Lunch 12 today''
   \<and> aiPreview (run sampleJson initialApp
       [SetMagicInput ''Dinner 40 yesterday'', TimerFired, SetMagicInput ''Lunch 12 today'',
        Settled 0 (Inr \<lparr>r_text = Some ''{"amount":40}''\<rparr>)])
     = Some (JObject (emptyPayload\<lparr>p_amount := Some 40\<rparr>))\<close>
  by (simp add: run_def initialApp_def noPreview_def parseNaturalLanguage_def
      parseTransactionWithAI_def JSON_parse_def sampleJson_def orStr_def dropAt_def Let_def)

theorem result_always_accepted_witness:
  \<open>0 < length (awaiting (run sampleJson initialApp
       [SetMagicInput ''Dinner 40 yesterday'', TimerFired, SetMagicInput ''Lunch 12 today'']))
   \<and> aiPreview (step sampleJson (run sampleJson initialApp
         [SetMagicInput ''Dinner 40 yesterday'', TimerFired, SetMagicInput ''Lunch 12 today''])
         (Settled 0 (Inr \<lparr>r_text = Some ''{"amount":40}''\<rparr>)))
     = Some (JObject (emptyPayload\<lparr>p_amount := Some 40\<rparr>))
   \<and> aiPreview (step sampleJson (run sampleJson initialApp
         [SetMagicInput ''Dinner 40 yesterday'', TimerFired, SetMagicInput ''Lunch 12 today''])
         (Settled 0 (Inr \<lparr>r_text = Some ''null''\<rparr>)))
     = None
   \<and> timer (step sampleJson initialApp (SetMagicInput ''Dinner 40 yesterday''))
     = Some ''Dinner 40 yesterday''
   \<and> timer (step sampleJson initialApp (SetMagicInput ''Dinner'')) = None\<close>
proof -
  let ?app = "run sampleJson initialApp
       [SetMagicInput ''Dinner 40 yesterday'', TimerFired, SetMagicInput ''Lunch 12 today'']"
  have l: "0 < length (awaiting ?app)"
    by (simp add: run_def initialApp_def noPreview_def)
  have p: "aiPreview ?app = None"
    by (simp add: run_def initialApp_def noPreview_def)
  have x: \<open>extracted sampleJson \<lparr>r_text = Some ''{"amount":40}''\<rparr>
             = JObject (emptyPayload\<lparr>p_amount := Some 40\<rparr>)\<close>
    by (simp add: extracted_def JSON_parse_def sampleJson_def orStr_def)
  have y: "extracted sampleJson \<lparr>r_text = Some ''null''\<rparr> = JNull"
    by (simp add: extracted_def JSON_parse_def sampleJson_def orStr_def)
  have i: "magicInput initialApp = []" "timer initialApp = None" "noPreview initialApp"
    by (simp_all add: initialApp_def noPreview_def)
  have 1: \<open>aiPreview (step sampleJson ?app (Settled 0 (Inr \<lparr>r_text = Some ''{"amount":40}''\<rparr>)))
     = Some (JObject (emptyPayload\<lparr>p_amount := Some 40\<rparr>))\<close>
    using result_always_accepted [of 0 ?app sampleJson, THEN conjunct1, rule_format, OF l,
        THEN conjunct1] x
    by simp
  have 2: "aiPreview (step sampleJson ?app (Settled 0 (Inr \<lparr>r_text = Some ''null''\<rparr>))) = None"
    using result_always_accepted [of 0 ?app sampleJson, THEN conjunct1, rule_format, OF l,
        THEN conjunct2, THEN conjunct1, of "\<lparr>r_text = Some ''null''\<rparr>"] y p
    by simp
  have 3: "timer (step sampleJson initialApp (SetMagicInput ''Dinner 40 yesterday''))
     = Some ''Dinner 40 yesterday''"
    using result_always_accepted [of _ initialApp sampleJson _ _ "''Dinner 40 yesterday''",
        THEN conjunct2, THEN conjunct2, THEN conjunct2, THEN conjunct1] i
    by simp
  have 4: "timer (step sampleJson initialApp (SetMagicInput ''Dinner'')) = None"
    using result_always_accepted [of _ initialApp sampleJson _ _ "''Dinner''",
        THEN conjunct2, THEN conjunct2, THEN conjunct2, THEN conjunct1] i
    by simp
  from l 1 2 3 4 show ?thesis by simp
qed

end
